theory Spec2Isabelle
  imports Main
begin

section \<open>Python values, errors and dictionaries\<close>

text \<open>
  The model is a shallow embedding of \<^verbatim>\<open>acitoolkit/aaep.py\<close> and
  \<^verbatim>\<open>acitoolkit/logicalmodel.py\<close>. Objects live in a heap (a list of nodes, a reference
  is an index), Python exceptions are the left summand of a sum type, and dictionaries are maps.
  Strings are lists of code points below 256.
\<close>

type_synonym ref = nat

datatype pyval = PNone | PStr string | PInt int | PBool bool | PObj ref

datatype error = TypeError | ValueError | KeyError | AttributeError | AssertionError
  | TransportFailure

text \<open>Python truth value testing, as used by \<^verbatim>\<open>if x:\<close>. The classes of the two source
  files define neither \<^verbatim>\<open>__bool__\<close> nor \<^verbatim>\<open>__len__\<close>, so an object is true.\<close>

fun truthy :: "pyval \<Rightarrow> bool" where
  "truthy PNone = False"
| "truthy (PStr s) = (s \<noteq> [])"
| "truthy (PInt i) = (i \<noteq> 0)"
| "truthy (PBool b) = b"
| "truthy (PObj r) = True"

text \<open>Sequencing of computations that may raise: the first exception ends the computation.\<close>

definition andThen :: "error + 'a \<Rightarrow> ('a \<Rightarrow> error + 'b) \<Rightarrow> error + 'b" where
  "andThen m f = (case m of Inl e \<Rightarrow> Inl e | Inr x \<Rightarrow> f x)"

text \<open>\<^verbatim>\<open>d[k]\<close> raises KeyError on a missing key; \<^verbatim>\<open>d.get(k)\<close> yields None.\<close>

definition item :: "('k \<rightharpoonup> 'v) \<Rightarrow> 'k \<Rightarrow> error + 'v" where
  "item d k = (case d k of None \<Rightarrow> Inl KeyError | Some v \<Rightarrow> Inr v)"

definition dict_get :: "('k \<rightharpoonup> pyval) \<Rightarrow> 'k \<Rightarrow> pyval" where
  "dict_get d k = (case d k of None \<Rightarrow> PNone | Some v \<Rightarrow> v)"

section \<open>The builtin \<^verbatim>\<open>int(str)\<close>\<close>

text \<open>
  Python 3 \<^verbatim>\<open>int(s)\<close> on a string, base ten: surrounding whitespace (the code points 9 to
  13, 32, 133 and 160) is stripped, one sign is allowed, and the digits may be grouped by
  single underscores. Anything else raises ValueError, which is \<open>None\<close> here.
\<close>

definition is_space :: "char \<Rightarrow> bool" where
  "is_space c = ((of_char c :: nat) \<in> {9, 10, 11, 12, 13, 32, 133, 160})"

definition is_digit :: "char \<Rightarrow> bool" where
  "is_digit c = (48 \<le> (of_char c :: nat) \<and> (of_char c :: nat) \<le> 57)"

definition digit_val :: "char \<Rightarrow> nat" where
  "digit_val c = of_char c - 48"

definition strip :: "string \<Rightarrow> string" where
  "strip s = rev (dropWhile is_space (rev (dropWhile is_space s)))"

fun parse_digits :: "nat \<Rightarrow> string \<Rightarrow> nat option" where
  "parse_digits acc [] = Some acc"
| "parse_digits acc (c # cs) =
     (if is_digit c then parse_digits (10 * acc + digit_val c) cs
      else if c = CHR ''_'' then
        (case cs of
           [] \<Rightarrow> None
         | d # ds \<Rightarrow> if is_digit d then parse_digits (10 * acc + digit_val d) ds else None)
      else None)"

definition parse_unsigned :: "string \<Rightarrow> nat option" where
  "parse_unsigned s =
     (case s of
        [] \<Rightarrow> None
      | c # cs \<Rightarrow> if is_digit c then parse_digits (digit_val c) cs else None)"

definition py_int :: "string \<Rightarrow> int option" where
  "py_int s =
     (case strip s of
        [] \<Rightarrow> None
      | c # cs \<Rightarrow>
          if c = CHR ''-'' then map_option (\<lambda>n. - int n) (parse_unsigned cs)
          else if c = CHR ''+'' then map_option int (parse_unsigned cs)
          else map_option int (parse_unsigned (c # cs)))"

section \<open>AAEP_EPG.is_valid_encap\<close>

definition is_valid_encap :: "pyval \<Rightarrow> bool" where
  "is_valid_encap encap =
     (case encap of
        PStr s \<Rightarrow>
          if take 5 s \<noteq> ''vlan-'' then False
          else (case py_int (drop 5 s) of
                  None \<Rightarrow> False
                | Some vlan \<Rightarrow> if vlan < 1 \<or> vlan > 4094 then False else True)
      | _ \<Rightarrow> False)"

text \<open>The form the specification gives for an encapsulation string: \<^verbatim>\<open>vlan-<n>\<close> with
  \<open>n\<close> a decimal numeral between 1 and 4094, zero-padding allowed.\<close>

definition dec_value :: "string \<Rightarrow> nat" where
  "dec_value ds = foldl (\<lambda>acc c. 10 * acc + digit_val c) 0 ds"

definition spec_vlan_form :: "string \<Rightarrow> bool" where
  "spec_vlan_form s =
     (take 5 s = ''vlan-'' \<and> drop 5 s \<noteq> [] \<and> list_all is_digit (drop 5 s)
      \<and> 1 \<le> dec_value (drop 5 s) \<and> dec_value (drop 5 s) \<le> 4094)"

section \<open>Nodes and the heap\<close>

text \<open>
  Every class of the two files derives from \<^verbatim>\<open>BaseACIObject\<close>. A node carries its class, the
  base attributes (\<^verbatim>\<open>name\<close>, \<^verbatim>\<open>_parent\<close>, \<^verbatim>\<open>_children\<close>, \<^verbatim>\<open>_session\<close>) and the attributes
  the subclasses assign. An attribute a class never assigns stays \<open>PNone\<close> and is never read.
\<close>

datatype cls = AAEP | AAEP_EPG | AAEP_PhysDomain | LogicalModel | EPG | Tenant | PhysDomain
  | Fabric | Session

record node =
  cls :: cls
  name :: pyval
  u_parent :: pyval
  u_children :: "ref list"
  u_session :: pyval
  dn :: pyval
  lcOwn :: pyval
  childAction :: pyval
  descr :: pyval
  epg :: pyval
  tDn :: pyval
  encap :: pyval

type_synonym heap = "node list"

definition new_object :: "cls \<Rightarrow> node" where
  "new_object c =
     \<lparr>cls = c, name = PNone, u_parent = PNone, u_children = [], u_session = PNone, dn = PNone,
      lcOwn = PNone, childAction = PNone, descr = PNone, epg = PNone, tDn = PNone,
      encap = PNone\<rparr>"

text \<open>\<^verbatim>\<open>isinstance(v, C)\<close>: the classes of the model have no subclasses.\<close>

definition isinstance :: "heap \<Rightarrow> pyval \<Rightarrow> cls \<Rightarrow> bool" where
  "isinstance h v c = (case v of PObj r \<Rightarrow> r < length h \<and> cls (h ! r) = c | _ \<Rightarrow> False)"

text \<open>Modelled from the spec: \<^verbatim>\<open>BaseACIObject.__init__(name, parent)\<close>, whose file
  \<^verbatim>\<open>acibaseobject.py\<close> is not among the sources. The node keeps its identity and the
  back-reference to its parent, owns an ordered collection of children that starts empty, and
  a supplied parent gets the new node appended to its children. A supplied parent that is no
  node is a type-mismatch error. The check of the parent against the declared parent type is
  made where the source makes it, in the constructor of the subclass.
\<close>

definition BaseACIObject_init :: "ref \<Rightarrow> pyval \<Rightarrow> pyval \<Rightarrow> heap \<Rightarrow> error + heap" where
  "BaseACIObject_init self nm par h =
     (let h1 = h[self := (h ! self)\<lparr>name := nm, u_parent := par, u_children := []\<rparr>]
      in case par of
           PNone \<Rightarrow> Inr h1
         | PObj p \<Rightarrow>
             if p < length h1
             then Inr (h1[p := (h1 ! p)\<lparr>u_children := u_children (h1 ! p) @ [self]\<rparr>])
             else Inl TypeError
         | _ \<Rightarrow> Inl TypeError)"

text \<open>Modelled from the spec: \<^verbatim>\<open>BaseACIObject.get_dn_from_attributes\<close>, not among the sources:
  the distinguished name is round-tripped from the attribute \<^verbatim>\<open>dn\<close> and is None when absent.
\<close>

definition get_dn_from_attributes :: "(string \<rightharpoonup> pyval) \<Rightarrow> pyval" where
  "get_dn_from_attributes attributes = dict_get attributes ''dn''"

section \<open>AAEP_EPG\<close>

text \<open>\<^verbatim>\<open>AAEP_EPG(parent, epg=None, encap=None)\<close>: the object is allocated at the end of the
  heap and \<^verbatim>\<open>__init__\<close> runs on it. An exception leaves no result.\<close>

definition AAEP_EPG_init :: "pyval \<Rightarrow> pyval \<Rightarrow> pyval \<Rightarrow> heap \<Rightarrow> error + (ref \<times> heap)" where
  "AAEP_EPG_init par epg_arg encap_arg h =
     (if truthy par \<and> \<not> isinstance h par AAEP then Inl TypeError
      else if truthy epg_arg \<and> \<not> isinstance h epg_arg EPG then Inl TypeError
      else
        let self = length h;
            h0 = h @ [new_object AAEP_EPG]
        in andThen (BaseACIObject_init self (PStr ''asdf'') par h0) (\<lambda>h1.
           let h2 = h1[self := (h1 ! self)\<lparr>dn := PNone, lcOwn := PNone, childAction := PNone,
                                            epg := epg_arg\<rparr>];
               h3 = h2[self := (h2 ! self)\<lparr>tDn :=
                      (if truthy epg_arg
                       then (case epg_arg of PObj e \<Rightarrow> dn (h2 ! e) | _ \<Rightarrow> PNone)
                       else PNone)\<rparr>]
           in if truthy encap_arg \<and> \<not> is_valid_encap encap_arg then Inl ValueError
              else Inr (self, h3[self := (h3 ! self)\<lparr>encap := encap_arg\<rparr>])))"

definition AAEP_EPG_generate_attributes :: "node \<Rightarrow> (string \<rightharpoonup> pyval)" where
  "AAEP_EPG_generate_attributes self =
     (let attributes = Map.empty;
          attributes = (if truthy (dn self) then attributes(''dn'' \<mapsto> dn self) else attributes);
          attributes = (if truthy (lcOwn self) then attributes(''lcOwn'' \<mapsto> lcOwn self)
                        else attributes);
          attributes = (if truthy (childAction self)
                        then attributes(''childAction'' \<mapsto> childAction self) else attributes);
          attributes = (if truthy (tDn self) then attributes(''tDn'' \<mapsto> tDn self)
                        else attributes);
          attributes = (if truthy (encap self) then attributes(''encap'' \<mapsto> encap self)
                        else attributes)
      in attributes)"

definition AAEP_EPG_populate_from_attributes :: "(string \<rightharpoonup> pyval) \<Rightarrow> node \<Rightarrow> node" where
  "AAEP_EPG_populate_from_attributes attributes self =
     self\<lparr>dn := get_dn_from_attributes attributes,
          lcOwn := dict_get attributes ''lcOwn'',
          childAction := dict_get attributes ''childAction'',
          tDn := dict_get attributes ''tDn'',
          encap := dict_get attributes ''encap''\<rparr>"

section \<open>AAEP\<close>

definition AAEP_init :: "pyval \<Rightarrow> pyval \<Rightarrow> heap \<Rightarrow> error + (ref \<times> heap)" where
  "AAEP_init nm par h =
     (let self = length h;
          h0 = h @ [(new_object AAEP)\<lparr>dn := PNone, lcOwn := PNone, childAction := PNone,
                                       descr := PNone, name := nm\<rparr>]
      in andThen (BaseACIObject_init self nm par h0) (\<lambda>h1. Inr (self, h1)))"

definition AAEP_generate_attributes :: "node \<Rightarrow> (string \<rightharpoonup> pyval)" where
  "AAEP_generate_attributes self =
     (let attributes = Map.empty;
          attributes = (if truthy (name self) then attributes(''name'' \<mapsto> name self)
                        else attributes);
          attributes = (if truthy (descr self) then attributes(''descr'' \<mapsto> descr self)
                        else attributes);
          attributes = (if truthy (dn self) then attributes(''dn'' \<mapsto> dn self) else attributes);
          attributes = (if truthy (lcOwn self) then attributes(''lcOwn'' \<mapsto> lcOwn self)
                        else attributes);
          attributes = (if truthy (childAction self)
                        then attributes(''childAction'' \<mapsto> childAction self) else attributes)
      in attributes)"

text \<open>Modelled from the spec: \<^verbatim>\<open>_populate_from_attributes\<close> of an AAEP, which the class inherits
  from \<^verbatim>\<open>BaseACIObject\<close> (not among the sources): every field the type declares is set from
  the mapping and is None when the attribute is absent.
\<close>

definition AAEP_populate_from_attributes :: "(string \<rightharpoonup> pyval) \<Rightarrow> node \<Rightarrow> node" where
  "AAEP_populate_from_attributes attributes self =
     self\<lparr>name := dict_get attributes ''name'',
          descr := dict_get attributes ''descr'',
          dn := get_dn_from_attributes attributes,
          lcOwn := dict_get attributes ''lcOwn'',
          childAction := dict_get attributes ''childAction''\<rparr>"

definition AAEP_get_apic_classes :: "string list" where
  "AAEP_get_apic_classes = [''infraAttEntityP'']"

subsection \<open>The Session capability and the decoded response\<close>

text \<open>
  The decoded body has the shape the engine assumes:
  \<^verbatim>\<open>{"imdata": [{"<class>": {"attributes": {...}}}, ...]}\<close>, with string attribute values, so
  that \<^verbatim>\<open>str\<close> of an attribute value is the value. Every subscript of the source is a lookup
  that raises KeyError. The transport and the class methods of classes that are not among the
  sources (\<^verbatim>\<open>Tenant.get\<close>, \<^verbatim>\<open>PhysDomain.get\<close>, every \<^verbatim>\<open>get_deep\<close>) are parameters.
\<close>

type_synonym json_attributes = "string \<rightharpoonup> string"
type_synonym json_record = "string \<rightharpoonup> (string \<rightharpoonup> json_attributes)"
type_synonym json_body = "string \<rightharpoonup> json_record list"

record env =
  session_get :: "ref \<Rightarrow> string \<Rightarrow> error + json_body"
  class_get :: "cls \<Rightarrow> pyval \<Rightarrow> pyval \<Rightarrow> heap \<Rightarrow> error + heap"
  class_get_deep :: "cls \<Rightarrow> pyval \<Rightarrow> pyval \<Rightarrow> heap \<Rightarrow> error + heap"

definition decoded :: "json_attributes \<Rightarrow> (string \<rightharpoonup> pyval)" where
  "decoded a = (\<lambda>k. map_option PStr (a k))"

text \<open>\<^verbatim>\<open>session.get(url).json()\<close>; a value without that method raises AttributeError.\<close>

definition Session_get :: "env \<Rightarrow> heap \<Rightarrow> pyval \<Rightarrow> string \<Rightarrow> error + json_body" where
  "Session_get E h session url =
     (case session of
        PObj s \<Rightarrow> if isinstance h session Session then session_get E s url
                  else Inl AttributeError
      | _ \<Rightarrow> Inl AttributeError)"

text \<open>\<^verbatim>\<open>object_data[apic_class]['attributes']\<close>\<close>

definition attributes_of :: "json_record \<Rightarrow> string \<Rightarrow> error + json_attributes" where
  "attributes_of object_data apic_class =
     andThen (item object_data apic_class) (\<lambda>c. item c ''attributes'')"

subsection \<open>AAEP.get\<close>

text \<open>The body of the loop of \<^verbatim>\<open>AAEP.get\<close>, lines 307 to 313: one record is decoded into a
  new AAEP under the given parent.\<close>

definition AAEP_get_decode :: "string \<Rightarrow> pyval \<Rightarrow> json_record \<Rightarrow> heap \<Rightarrow> error + (ref \<times> heap)"
  where
  "AAEP_get_decode apic_class par object_data h =
     andThen (attributes_of object_data apic_class) (\<lambda>a.
     andThen (item a ''name'') (\<lambda>nm.
     andThen (AAEP_init (PStr nm) par h) (\<lambda>(obj, h1).
     andThen (attributes_of object_data apic_class) (\<lambda>attribute_data.
     let h2 = h1[obj := AAEP_populate_from_attributes (decoded attribute_data) (h1 ! obj)] in
     andThen (andThen (attributes_of object_data apic_class) (\<lambda>a. item a ''dn'')) (\<lambda>v.
     let h3 = h2[obj := (h2 ! obj)\<lparr>dn := PStr v\<rparr>] in
     andThen (andThen (attributes_of object_data apic_class) (\<lambda>a. item a ''lcOwn'')) (\<lambda>v.
     let h4 = h3[obj := (h3 ! obj)\<lparr>lcOwn := PStr v\<rparr>] in
     andThen (andThen (attributes_of object_data apic_class) (\<lambda>a. item a ''childAction''))
       (\<lambda>v.
     let h5 = h4[obj := (h4 ! obj)\<lparr>childAction := PStr v\<rparr>] in
     Inr (obj, h5))))))))"

fun AAEP_get_loop ::
  "string \<Rightarrow> pyval \<Rightarrow> json_record list \<Rightarrow> ref list \<Rightarrow> heap \<Rightarrow> error + (ref list \<times> heap)"
  where
  "AAEP_get_loop apic_class par [] resp h = Inr (resp, h)"
| "AAEP_get_loop apic_class par (object_data # data) resp h =
     andThen (AAEP_get_decode apic_class par object_data h) (\<lambda>(obj, h').
       AAEP_get_loop apic_class par data (resp @ [obj]) h')"

definition AAEP_get :: "env \<Rightarrow> pyval \<Rightarrow> pyval \<Rightarrow> heap \<Rightarrow> error + (ref list \<times> heap)" where
  "AAEP_get E session par h =
     (let apic_class = AAEP_get_apic_classes ! 0;
          query_url = ''/api/mo/uni.json?query-target=subtree&target-subtree-class=''
                      @ apic_class
      in andThen (Session_get E h session query_url) (\<lambda>ret.
         andThen (item ret ''imdata'') (\<lambda>data.
         AAEP_get_loop apic_class par data [] h)))"

subsection \<open>AAEP.get_by_name\<close>

text \<open>The body of the loop of \<^verbatim>\<open>AAEP.get_by_name\<close>, lines 345 to 352. Lines 345 to 351
  are lines 307 to 313 of \<^verbatim>\<open>AAEP.get\<close> with the parent None; the name, which the source
  keeps in a local variable for the comparison of line 353, is read from the record once
  more to have it at hand, and line 352 assigns \<^verbatim>\<open>descr\<close>.\<close>

definition AAEP_get_by_name_decode ::
  "string \<Rightarrow> json_record \<Rightarrow> heap \<Rightarrow> error + (string \<times> ref \<times> heap)" where
  "AAEP_get_by_name_decode apic_class object_data h =
     andThen (AAEP_get_decode apic_class PNone object_data h) (\<lambda>(obj, h5).
     andThen (andThen (attributes_of object_data apic_class) (\<lambda>a. item a ''name'')) (\<lambda>nm.
     andThen (andThen (attributes_of object_data apic_class) (\<lambda>a. item a ''descr'')) (\<lambda>v.
     Inr (nm, obj, h5[obj := (h5 ! obj)\<lparr>descr := PStr v\<rparr>]))))"

fun AAEP_get_by_name_loop ::
  "string \<Rightarrow> pyval \<Rightarrow> json_record list \<Rightarrow> heap \<Rightarrow> error + (pyval \<times> heap)" where
  "AAEP_get_by_name_loop apic_class aaep_name [] h = Inr (PNone, h)"
| "AAEP_get_by_name_loop apic_class aaep_name (object_data # data) h =
     andThen (AAEP_get_by_name_decode apic_class object_data h) (\<lambda>(nm, obj, h').
       if PStr nm = aaep_name then Inr (PObj obj, h')
       else AAEP_get_by_name_loop apic_class aaep_name data h')"

definition AAEP_get_by_name :: "env \<Rightarrow> pyval \<Rightarrow> pyval \<Rightarrow> heap \<Rightarrow> error + (pyval \<times> heap)" where
  "AAEP_get_by_name E session aaep_name h =
     (let apic_class = AAEP_get_apic_classes ! 0;
          query_url = ''/api/mo/uni.json?query-target=subtree&target-subtree-class=''
                      @ apic_class
      in andThen (Session_get E h session query_url) (\<lambda>ret.
         andThen (item ret ''imdata'') (\<lambda>data.
         AAEP_get_by_name_loop apic_class aaep_name data h)))"

section \<open>LogicalModel\<close>

definition LogicalModel_init :: "pyval \<Rightarrow> pyval \<Rightarrow> heap \<Rightarrow> error + (ref \<times> heap)" where
  "LogicalModel_init session par h =
     (if truthy session \<and> \<not> isinstance h session Session then Inl AssertionError
      else
        let self = length h;
            h0 = h @ [new_object LogicalModel]
        in andThen (BaseACIObject_init self (PStr []) par h0) (\<lambda>h1.
           let h2 = h1[self := (h1 ! self)\<lparr>u_session := session\<rparr>];
               h3 = h2[self := (h2 ! self)\<lparr>dn := PStr ''logical''\<rparr>]
           in Inr (self, h3)))"

definition LogicalModel_get_children_classes :: "cls list" where
  "LogicalModel_get_children_classes = [Tenant, PhysDomain, AAEP]"

text \<open>
  Every class-method call the loop of \<^verbatim>\<open>populate_children\<close> makes is recorded, in order, with
  its arguments, beside the heap: that is what "once per declared child class" is about.
  The value a call returns is dropped by the source.
\<close>

datatype meth = Get | Get_deep

datatype call = Call cls meth pyval pyval

record world =
  objs :: heap
  calls :: "call list"

definition child_class_get :: "env \<Rightarrow> cls \<Rightarrow> pyval \<Rightarrow> pyval \<Rightarrow> heap \<Rightarrow> error + heap" where
  "child_class_get E c session par h =
     (if c = AAEP then andThen (AAEP_get E session par h) (\<lambda>(resp, h'). Inr h')
      else class_get E c session par h)"

definition class_method :: "env \<Rightarrow> cls \<Rightarrow> meth \<Rightarrow> pyval \<Rightarrow> pyval \<Rightarrow> heap \<Rightarrow> error + heap"
  where
  "class_method E c m session par h =
     (case m of
        Get \<Rightarrow> child_class_get E c session par h
      | Get_deep \<Rightarrow> class_get_deep E c session par h)"

definition invoke :: "env \<Rightarrow> cls \<Rightarrow> meth \<Rightarrow> pyval \<Rightarrow> pyval \<Rightarrow> world \<Rightarrow> error + world" where
  "invoke E c m session par w =
     (let w1 = w\<lparr>calls := calls w @ [Call c m session par]\<rparr>
      in andThen (class_method E c m session par (objs w1)) (\<lambda>h. Inr (w1\<lparr>objs := h\<rparr>)))"

fun populate_children_loop :: "env \<Rightarrow> ref \<Rightarrow> bool \<Rightarrow> cls list \<Rightarrow> world \<Rightarrow> error + world" where
  "populate_children_loop E self deep [] w = Inr w"
| "populate_children_loop E self deep (child_class # rest) w =
     andThen (if deep
              then invoke E child_class Get_deep (u_session (objs w ! self)) (PObj self) w
              else invoke E child_class Get (u_session (objs w ! self)) (PObj self) w)
       (\<lambda>w'. populate_children_loop E self deep rest w')"

definition LogicalModel_populate_children ::
  "env \<Rightarrow> ref \<Rightarrow> bool \<Rightarrow> bool \<Rightarrow> world \<Rightarrow> error + (ref list \<times> world)" where
  "LogicalModel_populate_children E self deep include_concrete w =
     andThen (populate_children_loop E self deep LogicalModel_get_children_classes w)
       (\<lambda>w'. Inr (u_children (objs w' ! self), w'))"

section \<open>Notions of the specification\<close>

text \<open>An attribute is unset when it is None or empty.\<close>

definition unset :: "pyval \<Rightarrow> bool" where
  "unset v = (v = PNone \<or> v = PStr [])"

text \<open>The value a record of a remote class carries for an attribute, if any; a record that
  carries all of a list of attributes; and a node whose fields come from a record.\<close>

definition record_attr :: "json_record \<Rightarrow> string \<Rightarrow> string \<Rightarrow> string option" where
  "record_attr r c k =
     (case r c of
        None \<Rightarrow> None
      | Some sec \<Rightarrow> (case sec ''attributes'' of None \<Rightarrow> None | Some a \<Rightarrow> a k))"

definition has_attrs :: "json_record \<Rightarrow> string \<Rightarrow> string list \<Rightarrow> bool" where
  "has_attrs r c ks = list_all (\<lambda>k. record_attr r c k \<noteq> None) ks"

definition decoded_from :: "node \<Rightarrow> json_record \<Rightarrow> string \<Rightarrow> bool" where
  "decoded_from n r c =
     (cls n = AAEP
      \<and> Some (name n) = map_option PStr (record_attr r c ''name'')
      \<and> Some (dn n) = map_option PStr (record_attr r c ''dn'')
      \<and> Some (lcOwn n) = map_option PStr (record_attr r c ''lcOwn'')
      \<and> Some (childAction n) = map_option PStr (record_attr r c ''childAction''))"

definition name_matches :: "json_record \<Rightarrow> string \<Rightarrow> pyval \<Rightarrow> bool" where
  "name_matches r c v = (map_option PStr (record_attr r c ''name'') = Some v)"

definition is_node :: "heap \<Rightarrow> pyval \<Rightarrow> bool" where
  "is_node h v = (case v of PObj p \<Rightarrow> p < length h | _ \<Rightarrow> False)"

definition query_url :: string where
  "query_url = ''/api/mo/uni.json?query-target=subtree&target-subtree-class=infraAttEntityP''"

section \<open>Example inputs\<close>

definition example_record :: "string \<Rightarrow> string \<Rightarrow> json_record" where
  "example_record nm d =
     [''infraAttEntityP'' \<mapsto>
        [''attributes'' \<mapsto>
           [''name'' \<mapsto> nm, ''dn'' \<mapsto> d, ''lcOwn'' \<mapsto> ''local'', ''childAction'' \<mapsto> [],
            ''descr'' \<mapsto> ''profile'']]]"

text \<open>An environment for the examples: the session answers the query for AAEPs with the
  given records, and \<^verbatim>\<open>get\<close> and \<^verbatim>\<open>get_deep\<close> of a class that is not among the sources
  attach one new node of that class, named after the method, under the parent.\<close>

definition example_attach :: "string \<Rightarrow> cls \<Rightarrow> pyval \<Rightarrow> heap \<Rightarrow> error + heap" where
  "example_attach nm c par h =
     andThen (BaseACIObject_init (length h) (PStr nm) par (h @ [new_object c])) Inr"

definition example_env :: "json_record list \<Rightarrow> env" where
  "example_env data =
     \<lparr>session_get = (\<lambda>s url. if url = query_url then Inr [''imdata'' \<mapsto> data]
                               else Inl TransportFailure),
      class_get = (\<lambda>c session par h. example_attach ''get'' c par h),
      class_get_deep = (\<lambda>c session par h. example_attach ''get_deep'' c par h)\<rparr>"

definition example_heap :: heap where
  "example_heap =
     [new_object Session,
      (new_object LogicalModel)\<lparr>name := PStr [], u_session := PObj 0, dn := PStr ''logical''\<rparr>]"

definition example_record_without :: "string \<Rightarrow> string \<Rightarrow> string \<Rightarrow> json_record" where
  "example_record_without k nm d =
     [''infraAttEntityP'' \<mapsto>
        [''attributes'' \<mapsto>
           ([''name'' \<mapsto> nm, ''dn'' \<mapsto> d, ''lcOwn'' \<mapsto> ''local'', ''childAction'' \<mapsto> [],
             ''descr'' \<mapsto> ''profile''](k := None))]]"

section \<open>The encapsulation syntax\<close>

lemma digit_not_space: "is_digit c \<Longrightarrow> \<not> is_space c"
  by (auto simp: is_digit_def is_space_def)

lemma digit_not_sign: "is_digit c \<Longrightarrow> c \<noteq> CHR ''-'' \<and> c \<noteq> CHR ''+''"
  by (auto simp: is_digit_def)

lemma strip_digits:
  assumes ne: "ds \<noteq> []" and d: "list_all is_digit ds"
  shows "strip ds = ds"
proof -
  have h: "\<not> is_space (hd ds)"
    using ne d by (cases ds) (auto simp: digit_not_space)
  have l: "\<not> is_space (last ds)"
    using ne d by (auto simp: digit_not_space list_all_iff)
  have "dropWhile is_space ds = ds"
    using ne h by (cases ds) auto
  moreover have "dropWhile is_space (rev ds) = rev ds"
    using ne l by (cases "rev ds") (auto simp: last_rev hd_rev)
  ultimately show ?thesis
    by (simp add: strip_def)
qed

lemma parse_digits_all:
  "list_all is_digit ds \<Longrightarrow>
   parse_digits acc ds = Some (foldl (\<lambda>acc c. 10 * acc + digit_val c) acc ds)"
  by (induction ds arbitrary: acc) auto

lemma py_int_digits:
  "ds \<noteq> [] \<Longrightarrow> list_all is_digit ds \<Longrightarrow> py_int ds = Some (int (dec_value ds))"
  by (cases ds)
     (auto simp: py_int_def strip_digits parse_unsigned_def parse_digits_all dec_value_def
        digit_not_sign)

lemma is_valid_encap_digits:
  assumes d: "list_all is_digit (drop 5 s)"
  shows "is_valid_encap (PStr s) = spec_vlan_form s"
proof (cases "drop 5 s = []")
  case True
  then show ?thesis
    by (simp add: is_valid_encap_def spec_vlan_form_def py_int_def strip_def)
next
  case False
  from False d have "py_int (drop 5 s) = Some (int (dec_value (drop 5 s)))"
    by (rule py_int_digits)
  with False d show ?thesis
    by (auto simp: is_valid_encap_def spec_vlan_form_def)
qed

text \<open>
  Claim C4: \<^verbatim>\<open>is_valid_encap\<close> accepts exactly the strings \<^verbatim>\<open>vlan-<n>\<close> with \<open>n\<close> a decimal
  numeral between 1 and 4094. The code departs from it at \<^verbatim>\<open>vlan-+5\<close>: the remainder is
  handed to \<^verbatim>\<open>int\<close>, which takes a sign, so the string is accepted although it is not of
  that form.
\<close>

theorem is_valid_encap_accepts_signed:
  "is_valid_encap (PStr ''vlan-+5'') \<and> \<not> spec_vlan_form ''vlan-+5''"
  by code_simp

text \<open>
  On the strings whose remainder after the first five characters is made of digits the code
  and the form of the specification agree, and the eight examples of the specification come
  out as listed.
\<close>

lemma is_valid_encap_examples:
  "is_valid_encap (PStr ''vlan-123'') \<and> is_valid_encap (PStr ''vlan-0001'')
   \<and> is_valid_encap (PStr ''vlan-4094'') \<and> \<not> is_valid_encap (PStr ''vlan-0'')
   \<and> \<not> is_valid_encap (PStr ''vlan-4095'') \<and> \<not> is_valid_encap (PStr ''vlan-abc'')
   \<and> \<not> is_valid_encap (PInt 123) \<and> \<not> is_valid_encap (PStr ''untagged'')"
  by code_simp

lemma is_valid_encap_form: "spec_vlan_form s \<Longrightarrow> is_valid_encap (PStr s)"
proof -
  assume f: "spec_vlan_form s"
  then have "list_all is_digit (drop 5 s)"
    by (simp add: spec_vlan_form_def)
  from is_valid_encap_digits[OF this] f show "is_valid_encap (PStr s)"
    by simp
qed

section \<open>The attribute codec\<close>

lemma unset_not_truthy: "unset v \<Longrightarrow> truthy v = False"
  by (auto simp: unset_def)

lemma AAEP_EPG_generate_lookup:
  "AAEP_EPG_generate_attributes n ''dn'' = (if truthy (dn n) then Some (dn n) else None)"
  "AAEP_EPG_generate_attributes n ''lcOwn'' =
     (if truthy (lcOwn n) then Some (lcOwn n) else None)"
  "AAEP_EPG_generate_attributes n ''childAction'' =
     (if truthy (childAction n) then Some (childAction n) else None)"
  "AAEP_EPG_generate_attributes n ''tDn'' = (if truthy (tDn n) then Some (tDn n) else None)"
  "AAEP_EPG_generate_attributes n ''encap'' =
     (if truthy (encap n) then Some (encap n) else None)"
  by (simp_all add: AAEP_EPG_generate_attributes_def Let_def)

lemma AAEP_EPG_generate_range: "AAEP_EPG_generate_attributes n k = Some v \<Longrightarrow> truthy v"
  by (auto simp: AAEP_EPG_generate_attributes_def Let_def split: if_splits)

lemma AAEP_generate_lookup:
  "AAEP_generate_attributes n ''name'' = (if truthy (name n) then Some (name n) else None)"
  "AAEP_generate_attributes n ''descr'' = (if truthy (descr n) then Some (descr n) else None)"
  "AAEP_generate_attributes n ''dn'' = (if truthy (dn n) then Some (dn n) else None)"
  "AAEP_generate_attributes n ''lcOwn'' = (if truthy (lcOwn n) then Some (lcOwn n) else None)"
  "AAEP_generate_attributes n ''childAction'' =
     (if truthy (childAction n) then Some (childAction n) else None)"
  by (simp_all add: AAEP_generate_attributes_def Let_def)

lemma AAEP_generate_range: "AAEP_generate_attributes n k = Some v \<Longrightarrow> truthy v"
  by (auto simp: AAEP_generate_attributes_def Let_def split: if_splits)

lemma AAEP_EPG_generate_set: "AAEP_EPG_generate_attributes n k = Some v \<Longrightarrow> \<not> unset v"
  using AAEP_EPG_generate_range[of n k v] unset_not_truthy[of v] by blast

lemma AAEP_generate_set: "AAEP_generate_attributes n k = Some v \<Longrightarrow> \<not> unset v"
  using AAEP_generate_range[of n k v] unset_not_truthy[of v] by blast

text \<open>
  Claim C7: the mapping \<^verbatim>\<open>_generate_attributes\<close> builds for an AAEP_EPG and for an AAEP has no
  key for a declared field that is unset (None or empty), and no value in it is None or the
  empty string.
\<close>

theorem generate_attributes_only_set:
  "(unset (dn n) \<longrightarrow> AAEP_EPG_generate_attributes n ''dn'' = None)
   \<and> (unset (lcOwn n) \<longrightarrow> AAEP_EPG_generate_attributes n ''lcOwn'' = None)
   \<and> (unset (childAction n) \<longrightarrow> AAEP_EPG_generate_attributes n ''childAction'' = None)
   \<and> (unset (tDn n) \<longrightarrow> AAEP_EPG_generate_attributes n ''tDn'' = None)
   \<and> (unset (encap n) \<longrightarrow> AAEP_EPG_generate_attributes n ''encap'' = None)
   \<and> (\<forall>k v. AAEP_EPG_generate_attributes n k = Some v \<longrightarrow> \<not> unset v)
   \<and> (unset (name n) \<longrightarrow> AAEP_generate_attributes n ''name'' = None)
   \<and> (unset (descr n) \<longrightarrow> AAEP_generate_attributes n ''descr'' = None)
   \<and> (unset (dn n) \<longrightarrow> AAEP_generate_attributes n ''dn'' = None)
   \<and> (unset (lcOwn n) \<longrightarrow> AAEP_generate_attributes n ''lcOwn'' = None)
   \<and> (unset (childAction n) \<longrightarrow> AAEP_generate_attributes n ''childAction'' = None)
   \<and> (\<forall>k v. AAEP_generate_attributes n k = Some v \<longrightarrow> \<not> unset v)"
proof -
  have epg_keys:
    "unset (dn n) \<longrightarrow> AAEP_EPG_generate_attributes n ''dn'' = None"
    "unset (lcOwn n) \<longrightarrow> AAEP_EPG_generate_attributes n ''lcOwn'' = None"
    "unset (childAction n) \<longrightarrow> AAEP_EPG_generate_attributes n ''childAction'' = None"
    "unset (tDn n) \<longrightarrow> AAEP_EPG_generate_attributes n ''tDn'' = None"
    "unset (encap n) \<longrightarrow> AAEP_EPG_generate_attributes n ''encap'' = None"
    by (simp_all add: AAEP_EPG_generate_lookup unset_not_truthy)
  have aaep_keys:
    "unset (name n) \<longrightarrow> AAEP_generate_attributes n ''name'' = None"
    "unset (descr n) \<longrightarrow> AAEP_generate_attributes n ''descr'' = None"
    "unset (dn n) \<longrightarrow> AAEP_generate_attributes n ''dn'' = None"
    "unset (lcOwn n) \<longrightarrow> AAEP_generate_attributes n ''lcOwn'' = None"
    "unset (childAction n) \<longrightarrow> AAEP_generate_attributes n ''childAction'' = None"
    by (simp_all add: AAEP_generate_lookup unset_not_truthy)
  have epg_values: "\<forall>k v. AAEP_EPG_generate_attributes n k = Some v \<longrightarrow> \<not> unset v"
    using AAEP_EPG_generate_set by blast
  have aaep_values: "\<forall>k v. AAEP_generate_attributes n k = Some v \<longrightarrow> \<not> unset v"
    using AAEP_generate_set by blast
  show ?thesis
    by (intro conjI) (rule epg_keys aaep_keys epg_values aaep_values)+
qed

theorem generate_attributes_only_set_witness:
  "unset (PStr []) \<and> unset PNone
   \<and> AAEP_EPG_generate_attributes
        ((new_object AAEP_EPG)\<lparr>dn := PStr [], encap := PStr ''vlan-5''\<rparr>) ''dn'' = None
   \<and> AAEP_EPG_generate_attributes
        ((new_object AAEP_EPG)\<lparr>dn := PStr [], encap := PStr ''vlan-5''\<rparr>) ''tDn'' = None
   \<and> AAEP_EPG_generate_attributes
        ((new_object AAEP_EPG)\<lparr>dn := PStr [], encap := PStr ''vlan-5''\<rparr>) ''encap''
       = Some (PStr ''vlan-5'')
   \<and> AAEP_generate_attributes ((new_object AAEP)\<lparr>name := PStr ''a'', descr := PStr []\<rparr>)
        ''descr'' = None
   \<and> AAEP_generate_attributes ((new_object AAEP)\<lparr>name := PStr ''a'', descr := PStr []\<rparr>)
        ''name'' = Some (PStr ''a'')"
  using generate_attributes_only_set
          [of "(new_object AAEP_EPG)\<lparr>dn := PStr [], encap := PStr ''vlan-5''\<rparr>"]
        generate_attributes_only_set
          [of "(new_object AAEP)\<lparr>name := PStr ''a'', descr := PStr []\<rparr>"]
  by (simp add: unset_def new_object_def AAEP_EPG_generate_lookup AAEP_generate_lookup)

lemma AAEP_EPG_roundtrip_fields:
  "dn (AAEP_EPG_populate_from_attributes (AAEP_EPG_generate_attributes n) m) =
     (if truthy (dn n) then dn n else PNone)"
  "lcOwn (AAEP_EPG_populate_from_attributes (AAEP_EPG_generate_attributes n) m) =
     (if truthy (lcOwn n) then lcOwn n else PNone)"
  "childAction (AAEP_EPG_populate_from_attributes (AAEP_EPG_generate_attributes n) m) =
     (if truthy (childAction n) then childAction n else PNone)"
  "tDn (AAEP_EPG_populate_from_attributes (AAEP_EPG_generate_attributes n) m) =
     (if truthy (tDn n) then tDn n else PNone)"
  "encap (AAEP_EPG_populate_from_attributes (AAEP_EPG_generate_attributes n) m) =
     (if truthy (encap n) then encap n else PNone)"
  by (simp_all add: AAEP_EPG_populate_from_attributes_def get_dn_from_attributes_def
        dict_get_def AAEP_EPG_generate_lookup)

text \<open>
  Claim C1, as stated: populating from the generated mapping restores every declared field of
  an AAEP_EPG. It fails for a field that holds the empty string: \<^verbatim>\<open>AAEP_EPG(None, None, '')\<close>
  is constructed without error, its \<^verbatim>\<open>encap\<close> is the empty string, the mapping has no key
  for it, and the populated value is None.
\<close>

theorem AAEP_EPG_roundtrip_counterexample:
  "AAEP_EPG_init PNone PNone (PStr []) [] =
     Inr (0, [(new_object AAEP_EPG)\<lparr>name := PStr ''asdf'', encap := PStr []\<rparr>])
   \<and> encap (AAEP_EPG_populate_from_attributes
         (AAEP_EPG_generate_attributes
            ((new_object AAEP_EPG)\<lparr>name := PStr ''asdf'', encap := PStr []\<rparr>))
         ((new_object AAEP_EPG)\<lparr>name := PStr ''asdf'', encap := PStr []\<rparr>))
       \<noteq> encap ((new_object AAEP_EPG)\<lparr>name := PStr ''asdf'', encap := PStr []\<rparr>)"
  by (simp add: AAEP_EPG_init_def BaseACIObject_init_def andThen_def Let_def new_object_def
        AAEP_EPG_roundtrip_fields)

text \<open>
  Claim C1, amended: populating any AAEP_EPG node from the mapping generated for \<open>n\<close> restores
  each of \<^verbatim>\<open>dn\<close>, \<^verbatim>\<open>lcOwn\<close>, \<^verbatim>\<open>childAction\<close>, \<^verbatim>\<open>tDn\<close> and \<^verbatim>\<open>encap\<close> whose value in \<open>n\<close> is None
  or true as a condition (for a string: not empty); a field whose value is false as a
  condition, such as the empty string, comes back as None.
\<close>

theorem AAEP_EPG_roundtrip_amended:
  "(dn n = PNone \<or> truthy (dn n) \<longrightarrow>
      dn (AAEP_EPG_populate_from_attributes (AAEP_EPG_generate_attributes n) m) = dn n)
   \<and> (lcOwn n = PNone \<or> truthy (lcOwn n) \<longrightarrow>
      lcOwn (AAEP_EPG_populate_from_attributes (AAEP_EPG_generate_attributes n) m) = lcOwn n)
   \<and> (childAction n = PNone \<or> truthy (childAction n) \<longrightarrow>
      childAction (AAEP_EPG_populate_from_attributes (AAEP_EPG_generate_attributes n) m)
        = childAction n)
   \<and> (tDn n = PNone \<or> truthy (tDn n) \<longrightarrow>
      tDn (AAEP_EPG_populate_from_attributes (AAEP_EPG_generate_attributes n) m) = tDn n)
   \<and> (encap n = PNone \<or> truthy (encap n) \<longrightarrow>
      encap (AAEP_EPG_populate_from_attributes (AAEP_EPG_generate_attributes n) m) = encap n)
   \<and> (\<not> truthy (dn n) \<longrightarrow>
      dn (AAEP_EPG_populate_from_attributes (AAEP_EPG_generate_attributes n) m) = PNone)
   \<and> (\<not> truthy (lcOwn n) \<longrightarrow>
      lcOwn (AAEP_EPG_populate_from_attributes (AAEP_EPG_generate_attributes n) m) = PNone)
   \<and> (\<not> truthy (childAction n) \<longrightarrow>
      childAction (AAEP_EPG_populate_from_attributes (AAEP_EPG_generate_attributes n) m)
        = PNone)
   \<and> (\<not> truthy (tDn n) \<longrightarrow>
      tDn (AAEP_EPG_populate_from_attributes (AAEP_EPG_generate_attributes n) m) = PNone)
   \<and> (\<not> truthy (encap n) \<longrightarrow>
      encap (AAEP_EPG_populate_from_attributes (AAEP_EPG_generate_attributes n) m) = PNone)"
  by (simp add: AAEP_EPG_roundtrip_fields)

theorem AAEP_EPG_roundtrip_amended_witness:
  "dn (AAEP_EPG_populate_from_attributes
         (AAEP_EPG_generate_attributes
            ((new_object AAEP_EPG)\<lparr>dn := PStr ''uni/infra/a'', lcOwn := PStr ''local'',
               childAction := PStr ''x'', tDn := PStr ''uni/tn-t/ap-a/epg-e'',
               encap := PStr ''vlan-7''\<rparr>))
         (new_object AAEP_EPG)) = PStr ''uni/infra/a''
   \<and> encap (AAEP_EPG_populate_from_attributes
         (AAEP_EPG_generate_attributes
            ((new_object AAEP_EPG)\<lparr>dn := PStr ''uni/infra/a'', lcOwn := PStr ''local'',
               childAction := PStr ''x'', tDn := PStr ''uni/tn-t/ap-a/epg-e'',
               encap := PStr ''vlan-7''\<rparr>))
         (new_object AAEP_EPG)) = PStr ''vlan-7''
   \<and> lcOwn (AAEP_EPG_populate_from_attributes
         (AAEP_EPG_generate_attributes (new_object AAEP_EPG))
         ((new_object AAEP_EPG)\<lparr>lcOwn := PStr ''local''\<rparr>)) = PNone
   \<and> encap (AAEP_EPG_populate_from_attributes
         (AAEP_EPG_generate_attributes ((new_object AAEP_EPG)\<lparr>encap := PStr []\<rparr>))
         ((new_object AAEP_EPG)\<lparr>encap := PStr []\<rparr>)) = PNone"
  using AAEP_EPG_roundtrip_amended
          [of "(new_object AAEP_EPG)\<lparr>dn := PStr ''uni/infra/a'', lcOwn := PStr ''local'',
               childAction := PStr ''x'', tDn := PStr ''uni/tn-t/ap-a/epg-e'',
               encap := PStr ''vlan-7''\<rparr>" "new_object AAEP_EPG"]
        AAEP_EPG_roundtrip_amended
          [of "new_object AAEP_EPG" "(new_object AAEP_EPG)\<lparr>lcOwn := PStr ''local''\<rparr>"]
        AAEP_EPG_roundtrip_amended
          [of "(new_object AAEP_EPG)\<lparr>encap := PStr []\<rparr>"
              "(new_object AAEP_EPG)\<lparr>encap := PStr []\<rparr>"]
  by (simp add: new_object_def)

section \<open>Construction\<close>

lemma length_BaseACIObject_init:
  "BaseACIObject_init s nm par h = Inr h' \<Longrightarrow> length h' = length h"
  by (auto simp: BaseACIObject_init_def Let_def split: pyval.splits if_splits)

lemma dn_BaseACIObject_init:
  "BaseACIObject_init s nm par h = Inr h' \<Longrightarrow> r < length h \<Longrightarrow> dn (h' ! r) = dn (h ! r)"
  by (cases "s = r"; cases "par")
     (auto simp: BaseACIObject_init_def Let_def nth_list_update split: if_splits)

lemma BaseACIObject_init_conforming:
  "par = PNone \<or> isinstance h par c \<Longrightarrow> \<exists>h'. BaseACIObject_init s nm par (h @ [n]) = Inr h'"
  by (cases par) (auto simp: isinstance_def BaseACIObject_init_def Let_def)

lemma BaseACIObject_init_non_node:
  "par \<noteq> PNone \<Longrightarrow> \<not> truthy par \<Longrightarrow> BaseACIObject_init s nm par h = Inl TypeError"
  by (cases par) (auto simp: BaseACIObject_init_def Let_def)

lemma AAEP_EPG_init_bad_parent:
  "par \<noteq> PNone \<Longrightarrow> \<not> isinstance h par AAEP \<Longrightarrow> AAEP_EPG_init par e c h = Inl TypeError"
  by (cases "truthy par")
     (simp_all add: AAEP_EPG_init_def Let_def andThen_def BaseACIObject_init_non_node)

lemma AAEP_EPG_init_bad_epg:
  "truthy e \<Longrightarrow> \<not> isinstance h e EPG \<Longrightarrow> AAEP_EPG_init par e c h = Inl TypeError"
  by (simp add: AAEP_EPG_init_def)

lemma AAEP_EPG_init_bad_encap:
  assumes "par = PNone \<or> isinstance h par AAEP" "\<not> truthy e \<or> isinstance h e EPG"
    "truthy c" "\<not> is_valid_encap c"
  shows "AAEP_EPG_init par e c h = Inl ValueError"
proof -
  obtain h1 where
    "BaseACIObject_init (length h) (PStr ''asdf'') par (h @ [new_object AAEP_EPG]) = Inr h1"
    using BaseACIObject_init_conforming[OF assms(1)] by blast
  then show ?thesis using assms
    by (auto simp: AAEP_EPG_init_def Let_def andThen_def)
qed

lemma AAEP_EPG_init_conforming:
  assumes "par = PNone \<or> isinstance h par AAEP" "\<not> truthy e \<or> isinstance h e EPG"
    "\<not> truthy c \<or> is_valid_encap c"
  shows "\<exists>r h'. AAEP_EPG_init par e c h = Inr (r, h')"
proof -
  obtain h1 where
    "BaseACIObject_init (length h) (PStr ''asdf'') par (h @ [new_object AAEP_EPG]) = Inr h1"
    using BaseACIObject_init_conforming[OF assms(1)] by blast
  then show ?thesis using assms
    by (auto simp: AAEP_EPG_init_def Let_def andThen_def)
qed

lemma AAEP_EPG_init_Inr:
  assumes "AAEP_EPG_init par e c h = Inr (r, h')"
  shows "r = length h \<and> length h' = Suc (length h)
    \<and> tDn (h' ! r) =
        (if truthy e then (case e of PObj x \<Rightarrow> dn (h ! x) | _ \<Rightarrow> PNone) else PNone)
    \<and> dn (h' ! r) = PNone
    \<and> (truthy e \<longrightarrow> isinstance h e EPG)"
proof -
  from assms have pe:
    "\<not> (truthy par \<and> \<not> isinstance h par AAEP)" "\<not> (truthy e \<and> \<not> isinstance h e EPG)"
    by (auto simp: AAEP_EPG_init_def split: if_splits)
  from assms pe obtain h1 where h1:
    "BaseACIObject_init (length h) (PStr ''asdf'') par (h @ [new_object AAEP_EPG]) = Inr h1"
    by (auto simp: AAEP_EPG_init_def Let_def andThen_def split: sum.splits)
  have len: "length h1 = Suc (length h)"
    using length_BaseACIObject_init[OF h1] by simp
  have dnx: "\<And>x. x < length h \<Longrightarrow> dn (h1 ! x) = dn (h ! x)"
    using dn_BaseACIObject_init[OF h1] by (simp add: nth_append)
  from assms pe h1 len show ?thesis
    by (cases e)
       (auto simp: AAEP_EPG_init_def Let_def andThen_def isinstance_def dnx split: if_splits)
qed

text \<open>
  Claim C3, as stated: a non-None \<^verbatim>\<open>epg\<close> that is no EPG always raises TypeError, and an
  \<^verbatim>\<open>encap\<close> that \<^verbatim>\<open>is_valid_encap\<close> rejects raises ValueError. Both fail, because each check
  is guarded by the truth value of its argument: \<^verbatim>\<open>AAEP_EPG(None, '', None)\<close> passes an
  \<^verbatim>\<open>epg\<close> that is the empty string and the default \<^verbatim>\<open>encap\<close> None, which \<^verbatim>\<open>is_valid_encap\<close>
  rejects, and the object is constructed.
\<close>

theorem AAEP_EPG_init_counterexample:
  "PStr [] \<noteq> PNone \<and> \<not> isinstance [] (PStr []) EPG \<and> \<not> is_valid_encap PNone
   \<and> AAEP_EPG_init PNone (PStr []) PNone [] =
       Inr (0, [(new_object AAEP_EPG)\<lparr>name := PStr ''asdf'', epg := PStr []\<rparr>])"
  by (simp add: AAEP_EPG_init_def BaseACIObject_init_def andThen_def Let_def new_object_def
        isinstance_def is_valid_encap_def)

text \<open>
  Claim C3, amended: a non-None parent that is no AAEP raises TypeError; an \<^verbatim>\<open>epg\<close> that is
  true as a condition and no EPG raises TypeError; with a conforming parent and \<^verbatim>\<open>epg\<close>, an
  \<^verbatim>\<open>encap\<close> that is true as a condition and that \<^verbatim>\<open>is_valid_encap\<close> rejects raises ValueError;
  and with a parent that is None or an AAEP, an \<^verbatim>\<open>epg\<close> that is false as a condition or an
  EPG, and an \<^verbatim>\<open>encap\<close> that is false as a condition or valid, the object is constructed.
\<close>

theorem AAEP_EPG_init_errors:
  "(par \<noteq> PNone \<and> \<not> isinstance h par AAEP \<longrightarrow> AAEP_EPG_init par e c h = Inl TypeError)
   \<and> (truthy e \<and> \<not> isinstance h e EPG \<longrightarrow> AAEP_EPG_init par e c h = Inl TypeError)
   \<and> ((par = PNone \<or> isinstance h par AAEP) \<and> (\<not> truthy e \<or> isinstance h e EPG)
        \<and> truthy c \<and> \<not> is_valid_encap c \<longrightarrow> AAEP_EPG_init par e c h = Inl ValueError)
   \<and> ((par = PNone \<or> isinstance h par AAEP) \<and> (\<not> truthy e \<or> isinstance h e EPG)
        \<and> (\<not> truthy c \<or> is_valid_encap c) \<longrightarrow>
          (\<exists>r h'. AAEP_EPG_init par e c h = Inr (r, h')))"
  using AAEP_EPG_init_bad_parent[of par h e c] AAEP_EPG_init_bad_epg[of e h par c]
    AAEP_EPG_init_bad_encap[of par h e c] AAEP_EPG_init_conforming[of par h e c]
  by blast

theorem AAEP_EPG_init_errors_witness:
  "AAEP_EPG_init (PObj 0) PNone PNone [new_object EPG] = Inl TypeError
   \<and> AAEP_EPG_init PNone (PStr ''web'') PNone [] = Inl TypeError
   \<and> AAEP_EPG_init PNone PNone (PStr ''vlan-0'') [] = Inl ValueError
   \<and> isinstance [new_object AAEP, new_object EPG] (PObj 0) AAEP
   \<and> isinstance [new_object AAEP, new_object EPG] (PObj 1) EPG
   \<and> is_valid_encap (PStr ''vlan-10'')
   \<and> (\<exists>r h'. AAEP_EPG_init (PObj 0) (PObj 1) (PStr ''vlan-10'')
                [new_object AAEP, new_object EPG] = Inr (r, h'))"
proof -
  have a: "\<not> isinstance [new_object EPG] (PObj 0) AAEP"
    by (simp add: isinstance_def new_object_def)
  have b: "truthy (PStr ''web'') \<and> \<not> isinstance [] (PStr ''web'') EPG"
    by (simp add: isinstance_def)
  have c: "truthy (PStr ''vlan-0'') \<and> \<not> is_valid_encap (PStr ''vlan-0'')"
    by code_simp
  have d: "isinstance [new_object AAEP, new_object EPG] (PObj 0) AAEP"
    "isinstance [new_object AAEP, new_object EPG] (PObj 1) EPG"
    by (simp_all add: isinstance_def new_object_def)
  have e: "is_valid_encap (PStr ''vlan-10'')"
    by code_simp
  from a b c d e
    AAEP_EPG_init_errors[of "PObj 0" "[new_object EPG]" PNone PNone]
    AAEP_EPG_init_errors[of PNone "[]" "PStr ''web''" PNone]
    AAEP_EPG_init_errors[of PNone "[]" PNone "PStr ''vlan-0''"]
    AAEP_EPG_init_errors[of "PObj 0" "[new_object AAEP, new_object EPG]" "PObj 1"
      "PStr ''vlan-10''"]
  show ?thesis by simp
qed

text \<open>
  Claim C8: an AAEP_EPG constructed with an EPG has \<^verbatim>\<open>tDn\<close> equal to the \<^verbatim>\<open>dn\<close> that EPG had
  when the constructor was called, and a later assignment to the EPG's \<^verbatim>\<open>dn\<close> leaves \<^verbatim>\<open>tDn\<close>
  as it was; constructed with no \<^verbatim>\<open>epg\<close>, its \<^verbatim>\<open>tDn\<close> is None.
\<close>

theorem AAEP_EPG_tDn_at_construction:
  "(AAEP_EPG_init par (PObj e) c h = Inr (r, h') \<longrightarrow>
      tDn (h' ! r) = dn (h ! e)
      \<and> (\<forall>v. tDn (h'[e := (h' ! e)\<lparr>dn := v\<rparr>] ! r) = dn (h ! e)))
   \<and> (AAEP_EPG_init par PNone c h = Inr (r, h') \<longrightarrow> tDn (h' ! r) = PNone)"
proof -
  have live: "tDn (h' ! r) = dn (h ! e)
      \<and> (\<forall>v. tDn (h'[e := (h' ! e)\<lparr>dn := v\<rparr>] ! r) = dn (h ! e))"
    if a: "AAEP_EPG_init par (PObj e) c h = Inr (r, h')"
  proof -
    from AAEP_EPG_init_Inr[OF a]
    have r: "r = length h" and t: "tDn (h' ! r) = dn (h ! e)" and e: "e < length h"
      by (auto simp: isinstance_def)
    from r e have "e \<noteq> r" by simp
    then show ?thesis using t by simp
  qed
  have absent: "tDn (h' ! r) = PNone" if a: "AAEP_EPG_init par PNone c h = Inr (r, h')"
    using AAEP_EPG_init_Inr[OF a] by auto
  show ?thesis using live absent by blast
qed

theorem AAEP_EPG_tDn_at_construction_witness:
  "AAEP_EPG_init PNone (PObj 0) PNone [(new_object EPG)\<lparr>dn := PStr ''uni/tn-t/ap-a/epg-e''\<rparr>]
     = Inr (1, [(new_object EPG)\<lparr>dn := PStr ''uni/tn-t/ap-a/epg-e''\<rparr>,
                (new_object AAEP_EPG)\<lparr>name := PStr ''asdf'', epg := PObj 0,
                   tDn := PStr ''uni/tn-t/ap-a/epg-e''\<rparr>])
   \<and> tDn ([(new_object EPG)\<lparr>dn := PStr ''uni/tn-t/ap-a/epg-e''\<rparr>,
           (new_object AAEP_EPG)\<lparr>name := PStr ''asdf'', epg := PObj 0,
              tDn := PStr ''uni/tn-t/ap-a/epg-e''\<rparr>]
          [0 := ([(new_object EPG)\<lparr>dn := PStr ''uni/tn-t/ap-a/epg-e''\<rparr>,
                  (new_object AAEP_EPG)\<lparr>name := PStr ''asdf'', epg := PObj 0,
                     tDn := PStr ''uni/tn-t/ap-a/epg-e''\<rparr>] ! 0)\<lparr>dn := PStr ''moved''\<rparr>] ! 1)
       = PStr ''uni/tn-t/ap-a/epg-e''
   \<and> AAEP_EPG_init PNone PNone PNone [] = Inr (0, [(new_object AAEP_EPG)\<lparr>name := PStr ''asdf''\<rparr>])
   \<and> tDn ([(new_object AAEP_EPG)\<lparr>name := PStr ''asdf''\<rparr>] ! 0) = PNone"
proof -
  have a: "AAEP_EPG_init PNone (PObj 0) PNone
             [(new_object EPG)\<lparr>dn := PStr ''uni/tn-t/ap-a/epg-e''\<rparr>]
     = Inr (1, [(new_object EPG)\<lparr>dn := PStr ''uni/tn-t/ap-a/epg-e''\<rparr>,
                (new_object AAEP_EPG)\<lparr>name := PStr ''asdf'', epg := PObj 0,
                   tDn := PStr ''uni/tn-t/ap-a/epg-e''\<rparr>])"
    by (simp add: AAEP_EPG_init_def BaseACIObject_init_def andThen_def Let_def new_object_def
          isinstance_def)
  have b: "AAEP_EPG_init PNone PNone PNone [] =
             Inr (0, [(new_object AAEP_EPG)\<lparr>name := PStr ''asdf''\<rparr>])"
    by (simp add: AAEP_EPG_init_def BaseACIObject_init_def andThen_def Let_def new_object_def)
  from a b
    AAEP_EPG_tDn_at_construction[of PNone 0 PNone
      "[(new_object EPG)\<lparr>dn := PStr ''uni/tn-t/ap-a/epg-e''\<rparr>]" 1
      "[(new_object EPG)\<lparr>dn := PStr ''uni/tn-t/ap-a/epg-e''\<rparr>,
        (new_object AAEP_EPG)\<lparr>name := PStr ''asdf'', epg := PObj 0,
           tDn := PStr ''uni/tn-t/ap-a/epg-e''\<rparr>]"]
    AAEP_EPG_tDn_at_construction[of PNone 0 PNone "[]" 0
      "[(new_object AAEP_EPG)\<lparr>name := PStr ''asdf''\<rparr>]"]
  show ?thesis by simp
qed

lemma AAEP_init_dn: "AAEP_init nm par h = Inr (r, h') \<Longrightarrow> dn (h' ! r) = PNone"
  by (auto simp: AAEP_init_def Let_def andThen_def new_object_def split: sum.splits
        dest!: dn_BaseACIObject_init[where r = "length h"])

lemma LogicalModel_init_dn:
  "LogicalModel_init s par h = Inr (r, h') \<Longrightarrow> dn (h' ! r) = PStr ''logical''"
  by (auto simp: LogicalModel_init_def Let_def andThen_def split: sum.splits if_splits
        dest!: length_BaseACIObject_init)

text \<open>
  Claim C9, as stated: every locally constructed node, a LogicalModel included, has \<^verbatim>\<open>dn\<close>
  None after construction. \<^verbatim>\<open>LogicalModel()\<close> contradicts it: its constructor assigns the
  \<^verbatim>\<open>dn\<close> \<^verbatim>\<open>'logical'\<close>.
\<close>

theorem LogicalModel_dn_counterexample:
  "LogicalModel_init PNone PNone [] =
     Inr (0, [(new_object LogicalModel)\<lparr>name := PStr [], dn := PStr ''logical''\<rparr>])
   \<and> dn ((new_object LogicalModel)\<lparr>name := PStr [], dn := PStr ''logical''\<rparr>) \<noteq> PNone"
  by (simp add: LogicalModel_init_def BaseACIObject_init_def andThen_def Let_def new_object_def)

text \<open>
  Claim C9, amended: an AAEP and an AAEP_EPG have \<^verbatim>\<open>dn\<close> None immediately after construction;
  a LogicalModel has the \<^verbatim>\<open>dn\<close> \<^verbatim>\<open>'logical'\<close>.
\<close>

theorem constructed_dn_amended:
  "(AAEP_init nm par h = Inr (r, h') \<longrightarrow> dn (h' ! r) = PNone)
   \<and> (AAEP_EPG_init par e c h = Inr (r, h') \<longrightarrow> dn (h' ! r) = PNone)
   \<and> (LogicalModel_init s par h = Inr (r, h') \<longrightarrow> dn (h' ! r) = PStr ''logical'')"
  using AAEP_init_dn[of nm par h r h'] AAEP_EPG_init_Inr[of par e c h r h']
    LogicalModel_init_dn[of s par h r h']
  by blast

theorem constructed_dn_amended_witness:
  "AAEP_init (PStr ''a'') PNone [] = Inr (0, [(new_object AAEP)\<lparr>name := PStr ''a''\<rparr>])
   \<and> dn ([(new_object AAEP)\<lparr>name := PStr ''a''\<rparr>] ! 0) = PNone
   \<and> AAEP_EPG_init PNone PNone PNone [] = Inr (0, [(new_object AAEP_EPG)\<lparr>name := PStr ''asdf''\<rparr>])
   \<and> dn ([(new_object AAEP_EPG)\<lparr>name := PStr ''asdf''\<rparr>] ! 0) = PNone
   \<and> LogicalModel_init PNone PNone [] =
       Inr (0, [(new_object LogicalModel)\<lparr>name := PStr [], dn := PStr ''logical''\<rparr>])
   \<and> dn ([(new_object LogicalModel)\<lparr>name := PStr [], dn := PStr ''logical''\<rparr>] ! 0)
       = PStr ''logical''"
proof -
  have a: "AAEP_init (PStr ''a'') PNone [] = Inr (0, [(new_object AAEP)\<lparr>name := PStr ''a''\<rparr>])"
    by (simp add: AAEP_init_def BaseACIObject_init_def andThen_def Let_def new_object_def)
  have b: "AAEP_EPG_init PNone PNone PNone [] =
             Inr (0, [(new_object AAEP_EPG)\<lparr>name := PStr ''asdf''\<rparr>])"
    by (simp add: AAEP_EPG_init_def BaseACIObject_init_def andThen_def Let_def new_object_def)
  have c: "LogicalModel_init PNone PNone [] =
       Inr (0, [(new_object LogicalModel)\<lparr>name := PStr [], dn := PStr ''logical''\<rparr>])"
    by (simp add: LogicalModel_init_def BaseACIObject_init_def andThen_def Let_def
          new_object_def)
  from a b c
    constructed_dn_amended[of "PStr ''a''" PNone "[]" 0
      "[(new_object AAEP)\<lparr>name := PStr ''a''\<rparr>]" PNone PNone PNone]
    constructed_dn_amended[of "PStr ''a''" PNone "[]" 0
      "[(new_object AAEP_EPG)\<lparr>name := PStr ''asdf''\<rparr>]" PNone PNone PNone]
    constructed_dn_amended[of "PStr ''a''" PNone "[]" 0
      "[(new_object LogicalModel)\<lparr>name := PStr [], dn := PStr ''logical''\<rparr>]"
      PNone PNone PNone]
  show ?thesis
    by (simp add: new_object_def)
qed

section \<open>Reading AAEPs from the controller\<close>

lemma attributes_of_Some:
  "record_attr r c k = Some v \<Longrightarrow> \<exists>a. attributes_of r c = Inr a \<and> a k = Some v"
  by (auto simp: record_attr_def attributes_of_def item_def andThen_def split: option.splits)

lemma decode_ok:
  assumes n: "record_attr r c ''name'' = Some nm"
    and d: "record_attr r c ''dn'' = Some dv"
    and l: "record_attr r c ''lcOwn'' = Some lv"
    and ca: "record_attr r c ''childAction'' = Some cv"
    and p: "par = PNone \<or> is_node h par"
  shows "\<exists>h'. AAEP_get_decode c par r h = Inr (length h, h')
    \<and> length h' = Suc (length h)
    \<and> cls (h' ! length h) = AAEP \<and> name (h' ! length h) = PStr nm
    \<and> dn (h' ! length h) = PStr dv \<and> lcOwn (h' ! length h) = PStr lv
    \<and> childAction (h' ! length h) = PStr cv
    \<and> descr (h' ! length h) = (case record_attr r c ''descr'' of None \<Rightarrow> PNone | Some x \<Rightarrow> PStr x)
    \<and> u_parent (h' ! length h) = par
    \<and> (\<forall>q<length h. par \<noteq> PObj q \<longrightarrow> h' ! q = h ! q)
    \<and> (\<forall>q<length h. par = PObj q \<longrightarrow> h' ! q = (h ! q)\<lparr>u_children := u_children (h ! q) @ [length h]\<rparr>)"
proof -
  from attributes_of_Some[OF n] obtain a where a: "attributes_of r c = Inr a" "a ''name'' = Some nm"
    by blast
  from attributes_of_Some[OF d] a have ad: "a ''dn'' = Some dv" by auto
  from attributes_of_Some[OF l] a have al: "a ''lcOwn'' = Some lv" by auto
  from attributes_of_Some[OF ca] a have ac: "a ''childAction'' = Some cv" by auto
  have de: "record_attr r c ''descr'' = a ''descr''"
    using a by (auto simp: record_attr_def attributes_of_def item_def andThen_def split: option.splits)
  show ?thesis
  proof (cases par)
    case PNone
    then show ?thesis using a ad al ac de
      by (simp add: AAEP_get_decode_def AAEP_init_def BaseACIObject_init_def andThen_def Let_def item_def
          AAEP_populate_from_attributes_def decoded_def dict_get_def get_dn_from_attributes_def new_object_def
          nth_append split: option.splits)
  next
    case (PObj q)
    with p have q: "q < length h" by (simp add: is_node_def)
    with PObj show ?thesis using a ad al ac de
      by (simp add: AAEP_get_decode_def AAEP_init_def BaseACIObject_init_def andThen_def Let_def item_def
          AAEP_populate_from_attributes_def decoded_def dict_get_def get_dn_from_attributes_def new_object_def
          nth_append nth_list_update split: option.splits)
  qed (use p in \<open>simp_all add: is_node_def\<close>)
qed


lemma has_attrs4:
  assumes "has_attrs r c [''name'', ''dn'', ''lcOwn'', ''childAction'']"
  obtains nm dv lv cv where "record_attr r c ''name'' = Some nm" "record_attr r c ''dn'' = Some dv"
    "record_attr r c ''lcOwn'' = Some lv" "record_attr r c ''childAction'' = Some cv"
  using assms by (auto simp: has_attrs_def)

lemma decode_step:
  assumes k: "has_attrs r c [''name'', ''dn'', ''lcOwn'', ''childAction'']"
    and p: "par = PNone \<or> is_node h par"
  shows "\<exists>h'. AAEP_get_decode c par r h = Inr (length h, h')
    \<and> length h' = Suc (length h)
    \<and> decoded_from (h' ! length h) r c
    \<and> u_parent (h' ! length h) = par
    \<and> (\<forall>q<length h. par \<noteq> PObj q \<longrightarrow> h' ! q = h ! q)
    \<and> (\<forall>q<length h. par = PObj q \<longrightarrow> h' ! q = (h ! q)\<lparr>u_children := u_children (h ! q) @ [length h]\<rparr>)"
proof -
  from k obtain nm dv lv cv where a: "record_attr r c ''name'' = Some nm" "record_attr r c ''dn'' = Some dv"
    "record_attr r c ''lcOwn'' = Some lv" "record_attr r c ''childAction'' = Some cv"
    by (rule has_attrs4)
  from decode_ok[OF a p] obtain h' where h': "AAEP_get_decode c par r h = Inr (length h, h')"
    "length h' = Suc (length h)"
    "cls (h' ! length h) = AAEP" "name (h' ! length h) = PStr nm"
    "dn (h' ! length h) = PStr dv" "lcOwn (h' ! length h) = PStr lv"
    "childAction (h' ! length h) = PStr cv"
    "u_parent (h' ! length h) = par"
    "\<forall>q<length h. par \<noteq> PObj q \<longrightarrow> h' ! q = h ! q"
    "\<forall>q<length h. par = PObj q \<longrightarrow> h' ! q = (h ! q)\<lparr>u_children := u_children (h ! q) @ [length h]\<rparr>"
    by blast
  have "decoded_from (h' ! length h) r c"
    using a h'(3-7) by (simp add: decoded_from_def)
  with h' show ?thesis by blast
qed

lemma is_node_mono: "par = PNone \<or> is_node h par \<Longrightarrow> length h \<le> length h' \<Longrightarrow> par = PNone \<or> is_node h' par"
  by (cases par) (auto simp: is_node_def)

lemma is_node_not_fresh: "par = PNone \<or> is_node h par \<Longrightarrow> par \<noteq> PObj (length h)"
  by (auto simp: is_node_def)

lemma get_loop_ok:
  assumes "\<forall>r\<in>set data. has_attrs r c [''name'', ''dn'', ''lcOwn'', ''childAction'']"
    and "par = PNone \<or> is_node h par"
  shows "\<exists>h'. AAEP_get_loop c par data resp h = Inr (resp @ [length h..<length h + length data], h')
    \<and> length h' = length h + length data
    \<and> (\<forall>i<length data. decoded_from (h' ! (length h + i)) (data ! i) c
          \<and> u_parent (h' ! (length h + i)) = par)
    \<and> (\<forall>q<length h. par \<noteq> PObj q \<longrightarrow> h' ! q = h ! q)
    \<and> (\<forall>q<length h. par = PObj q \<longrightarrow>
          h' ! q = (h ! q)\<lparr>u_children := u_children (h ! q) @ [length h..<length h + length data]\<rparr>)"
  using assms
proof (induction data arbitrary: resp h)
  case Nil
  then show ?case by simp
next
  case (Cons r rest)
  from Cons.prems have k: "has_attrs r c [''name'', ''dn'', ''lcOwn'', ''childAction'']"
    and ks: "\<forall>r\<in>set rest. has_attrs r c [''name'', ''dn'', ''lcOwn'', ''childAction'']"
    and p: "par = PNone \<or> is_node h par"
    by simp_all
  from decode_step[OF k p] obtain h1 where h1:
    "AAEP_get_decode c par r h = Inr (length h, h1)"
    "length h1 = Suc (length h)"
    "decoded_from (h1 ! length h) r c"
    "u_parent (h1 ! length h) = par"
    "\<forall>q<length h. par \<noteq> PObj q \<longrightarrow> h1 ! q = h ! q"
    "\<forall>q<length h. par = PObj q \<longrightarrow> h1 ! q = (h ! q)\<lparr>u_children := u_children (h ! q) @ [length h]\<rparr>"
    by blast
  have p1: "par = PNone \<or> is_node h1 par"
    using is_node_mono[OF p, of h1] h1(2) by simp
  from Cons.IH[OF ks p1, of "resp @ [length h]"] obtain h' where h':
    "AAEP_get_loop c par rest (resp @ [length h]) h1 =
       Inr ((resp @ [length h]) @ [length h1..<length h1 + length rest], h')"
    "length h' = length h1 + length rest"
    "\<forall>i<length rest. decoded_from (h' ! (length h1 + i)) (rest ! i) c
          \<and> u_parent (h' ! (length h1 + i)) = par"
    "\<forall>q<length h1. par \<noteq> PObj q \<longrightarrow> h' ! q = h1 ! q"
    "\<forall>q<length h1. par = PObj q \<longrightarrow>
          h' ! q = (h1 ! q)\<lparr>u_children := u_children (h1 ! q) @ [length h1..<length h1 + length rest]\<rparr>"
    by blast
  have "[length h..<length h + Suc (length rest)] =
      length h # [Suc (length h)..<length h + Suc (length rest)]"
    by (rule upt_conv_Cons) simp
  then have upt: "[length h..<length h + length (r # rest)] =
      length h # [length h1..<length h1 + length rest]"
    using h1(2) by simp
  have res: "AAEP_get_loop c par (r # rest) resp h =
      Inr (resp @ [length h..<length h + length (r # rest)], h')"
    using h1(1) h'(1) upt by (simp add: andThen_def)
  have len: "length h' = length h + length (r # rest)"
    using h'(2) h1(2) by simp
  have new: "h' ! length h = h1 ! length h"
    using h'(4) h1(2) is_node_not_fresh[OF p] by simp
  have nodes: "\<forall>i<length (r # rest). decoded_from (h' ! (length h + i)) ((r # rest) ! i) c
          \<and> u_parent (h' ! (length h + i)) = par"
  proof (intro allI impI)
    fix i assume i: "i < length (r # rest)"
    show "decoded_from (h' ! (length h + i)) ((r # rest) ! i) c \<and> u_parent (h' ! (length h + i)) = par"
    proof (cases i)
      case 0
      then show ?thesis using new h1(3,4) by simp
    next
      case (Suc j)
      with i have "j < length rest" by simp
      with h'(3) have "decoded_from (h' ! (length h1 + j)) (rest ! j) c
          \<and> u_parent (h' ! (length h1 + j)) = par" by blast
      then show ?thesis using Suc h1(2) by simp
    qed
  qed
  have frame: "\<forall>q<length h. par \<noteq> PObj q \<longrightarrow> h' ! q = h ! q"
    using h'(4) h1(2,5) by simp
  have kids: "\<forall>q<length h. par = PObj q \<longrightarrow>
          h' ! q = (h ! q)\<lparr>u_children := u_children (h ! q) @ [length h..<length h + length (r # rest)]\<rparr>"
  proof (intro allI impI)
    fix q assume q: "q < length h" "par = PObj q"
    from q h1(6) have a: "h1 ! q = (h ! q)\<lparr>u_children := u_children (h ! q) @ [length h]\<rparr>" by blast
    from q h1(2) h'(5) have b: "h' ! q = (h1 ! q)\<lparr>u_children := u_children (h1 ! q) @ [length h1..<length h1 + length rest]\<rparr>"
      by simp
    show "h' ! q = (h ! q)\<lparr>u_children := u_children (h ! q) @ [length h..<length h + length (r # rest)]\<rparr>"
      unfolding b a upt by simp
  qed
  from res len nodes frame kids show ?case by blast
qed


text \<open>
  Claim C2: when the session answers the query with a body whose \<^verbatim>\<open>imdata\<close> holds \<open>k\<close>
  records of class \<^verbatim>\<open>infraAttEntityP\<close>, each carrying \<^verbatim>\<open>name\<close>, \<^verbatim>\<open>dn\<close>, \<^verbatim>\<open>lcOwn\<close> and
  \<^verbatim>\<open>childAction\<close>, \<^verbatim>\<open>AAEP.get\<close> returns \<open>k\<close> new AAEP objects in record order, the fields of
  each taken from its record, each with the supplied parent as its parent whatever the
  \<^verbatim>\<open>dn\<close> of its record, and a supplied parent has them appended to its children.
\<close>

theorem AAEP_get_returns_all:
  assumes "isinstance h (PObj s) Session"
    and "session_get E s query_url = Inr body"
    and "body ''imdata'' = Some data"
    and "\<forall>r\<in>set data. has_attrs r ''infraAttEntityP'' [''name'', ''dn'', ''lcOwn'', ''childAction'']"
    and "par = PNone \<or> is_node h par"
  shows "\<exists>resp h'. AAEP_get E (PObj s) par h = Inr (resp, h')
    \<and> length resp = length data
    \<and> resp = [length h..<length h + length data]
    \<and> (\<forall>i<length data. decoded_from (h' ! (resp ! i)) (data ! i) ''infraAttEntityP''
          \<and> u_parent (h' ! (resp ! i)) = par)
    \<and> (\<forall>p. par = PObj p \<longrightarrow> u_children (h' ! p) = u_children (h ! p) @ resp)"
proof -
  from get_loop_ok[OF assms(4,5), of "[]"] obtain h' where h':
    "AAEP_get_loop ''infraAttEntityP'' par data [] h = Inr ([length h..<length h + length data], h')"
    "\<forall>i<length data. decoded_from (h' ! (length h + i)) (data ! i) ''infraAttEntityP''
          \<and> u_parent (h' ! (length h + i)) = par"
    "\<forall>q<length h. par = PObj q \<longrightarrow>
          h' ! q = (h ! q)\<lparr>u_children := u_children (h ! q) @ [length h..<length h + length data]\<rparr>"
    by auto
  have run: "AAEP_get E (PObj s) par h = Inr ([length h..<length h + length data], h')"
    using assms(1-3) h'(1)
    by (simp add: AAEP_get_def Let_def Session_get_def andThen_def item_def
          AAEP_get_apic_classes_def query_url_def)
  have kids: "\<forall>p. par = PObj p \<longrightarrow>
      u_children (h' ! p) = u_children (h ! p) @ [length h..<length h + length data]"
  proof (intro allI impI)
    fix p assume p: "par = PObj p"
    with assms(5) have "p < length h" by (simp add: is_node_def)
    with p h'(3) show "u_children (h' ! p) = u_children (h ! p) @ [length h..<length h + length data]"
      by simp
  qed
  from run h'(2) kids show ?thesis by simp
qed

theorem AAEP_get_returns_all_witness:
  "\<exists>h'. AAEP_get (example_env [example_record ''a'' ''uni/infra/attentp-a'',
                               example_record ''b'' ''uni/infra/attentp-b''])
           (PObj 0) (PObj 1) example_heap = Inr ([2, 3], h')
     \<and> name (h' ! 2) = PStr ''a'' \<and> dn (h' ! 2) = PStr ''uni/infra/attentp-a''
     \<and> name (h' ! 3) = PStr ''b'' \<and> dn (h' ! 3) = PStr ''uni/infra/attentp-b''
     \<and> lcOwn (h' ! 3) = PStr ''local'' \<and> childAction (h' ! 3) = PStr []
     \<and> u_parent (h' ! 2) = PObj 1 \<and> u_parent (h' ! 3) = PObj 1
     \<and> u_children (h' ! 1) = [2, 3]"
proof -
  let ?data = "[example_record ''a'' ''uni/infra/attentp-a'',
                example_record ''b'' ''uni/infra/attentp-b'']"
  have 1: "isinstance example_heap (PObj 0) Session"
    by (simp add: isinstance_def example_heap_def new_object_def)
  have 2: "session_get (example_env ?data) 0 query_url = Inr [''imdata'' \<mapsto> ?data]"
    by (simp add: example_env_def)
  have 3: "[''imdata'' \<mapsto> ?data] ''imdata'' = Some ?data"
    by simp
  have 4: "\<forall>r\<in>set ?data. has_attrs r ''infraAttEntityP'' [''name'', ''dn'', ''lcOwn'', ''childAction'']"
    by (simp add: has_attrs_def record_attr_def example_record_def)
  have 5: "PObj 1 = PNone \<or> is_node example_heap (PObj 1)"
    by (simp add: is_node_def example_heap_def)
  from AAEP_get_returns_all[OF 1 2 3 4 5] obtain resp h' where r:
    "AAEP_get (example_env ?data) (PObj 0) (PObj 1) example_heap = Inr (resp, h')"
    "resp = [length example_heap..<length example_heap + length ?data]"
    "\<forall>i<length ?data. decoded_from (h' ! (resp ! i)) (?data ! i) ''infraAttEntityP''
          \<and> u_parent (h' ! (resp ! i)) = PObj 1"
    "\<forall>p. PObj 1 = PObj p \<longrightarrow> u_children (h' ! p) = u_children (example_heap ! p) @ resp"
    by blast
  have resp: "resp = [2, 3]"
    using r(2) by (simp add: example_heap_def upt_rec)
  from r(3)[rule_format, of 0] have "decoded_from (h' ! (resp ! 0)) (?data ! 0) ''infraAttEntityP''
          \<and> u_parent (h' ! (resp ! 0)) = PObj 1"
    by simp
  then have a: "name (h' ! 2) = PStr ''a''" "dn (h' ! 2) = PStr ''uni/infra/attentp-a''"
    "u_parent (h' ! 2) = PObj 1"
    by (simp_all add: resp decoded_from_def record_attr_def example_record_def)
  from r(3)[rule_format, of 1] have "decoded_from (h' ! (resp ! 1)) (?data ! 1) ''infraAttEntityP''
          \<and> u_parent (h' ! (resp ! 1)) = PObj 1"
    by simp
  then have b: "name (h' ! 3) = PStr ''b''" "dn (h' ! 3) = PStr ''uni/infra/attentp-b''"
    "lcOwn (h' ! 3) = PStr ''local''" "childAction (h' ! 3) = PStr []"
    "u_parent (h' ! 3) = PObj 1"
    by (simp_all add: resp decoded_from_def record_attr_def example_record_def)
  from r(4) have c: "u_children (h' ! 1) = [2, 3]"
    by (simp add: resp example_heap_def new_object_def)
  from r(1) resp a b c show ?thesis by simp
qed

lemma has_attrs5_4:
  "has_attrs r c [''name'', ''dn'', ''lcOwn'', ''childAction'', ''descr''] \<Longrightarrow>
   has_attrs r c [''name'', ''dn'', ''lcOwn'', ''childAction'']"
  by (simp add: has_attrs_def)

lemma decoded_from_descr [simp]: "decoded_from (n\<lparr>descr := x\<rparr>) r c = decoded_from n r c"
  by (simp add: decoded_from_def)

lemma by_name_decode_ok:
  assumes k: "has_attrs r c [''name'', ''dn'', ''lcOwn'', ''childAction'', ''descr'']"
  shows "\<exists>nm h'. AAEP_get_by_name_decode c r h = Inr (nm, length h, h')
    \<and> record_attr r c ''name'' = Some nm
    \<and> length h' = Suc (length h)
    \<and> decoded_from (h' ! length h) r c
    \<and> Some (descr (h' ! length h)) = map_option PStr (record_attr r c ''descr'')
    \<and> u_parent (h' ! length h) = PNone
    \<and> (\<forall>q<length h. h' ! q = h ! q)"
proof -
  from k obtain nm dv where n: "record_attr r c ''name'' = Some nm"
    and d: "record_attr r c ''descr'' = Some dv"
    by (auto simp: has_attrs_def)
  from decode_step[OF has_attrs5_4[OF k], of PNone h] obtain h5 where h5:
    "AAEP_get_decode c PNone r h = Inr (length h, h5)"
    "length h5 = Suc (length h)"
    "decoded_from (h5 ! length h) r c"
    "u_parent (h5 ! length h) = PNone"
    "\<forall>q<length h. h5 ! q = h ! q"
    by auto
  from attributes_of_Some[OF n] obtain a where a: "attributes_of r c = Inr a" "a ''name'' = Some nm"
    by blast
  from attributes_of_Some[OF d] a have ad: "a ''descr'' = Some dv" by auto
  have run: "AAEP_get_by_name_decode c r h =
      Inr (nm, length h, h5[length h := (h5 ! length h)\<lparr>descr := PStr dv\<rparr>])"
    using h5(1) a ad by (simp add: AAEP_get_by_name_decode_def andThen_def item_def)
  show ?thesis
    using run n d h5(2-5) by simp
qed

lemma by_name_loop_found:
  assumes "\<forall>x\<in>set pre. has_attrs x c [''name'', ''dn'', ''lcOwn'', ''childAction'', ''descr'']
              \<and> \<not> name_matches x c aaep_name"
    and "has_attrs r c [''name'', ''dn'', ''lcOwn'', ''childAction'', ''descr'']"
    and "name_matches r c aaep_name"
  shows "\<exists>h'. AAEP_get_by_name_loop c aaep_name (pre @ r # post) h = Inr (PObj (length h + length pre), h')
    \<and> decoded_from (h' ! (length h + length pre)) r c
    \<and> Some (descr (h' ! (length h + length pre))) = map_option PStr (record_attr r c ''descr'')
    \<and> u_parent (h' ! (length h + length pre)) = PNone
    \<and> (\<forall>q<length h. h' ! q = h ! q)"
  using assms
proof (induction pre arbitrary: h)
  case Nil
  from by_name_decode_ok[OF Nil.prems(2), of h] obtain nm h' where h':
    "AAEP_get_by_name_decode c r h = Inr (nm, length h, h')"
    "record_attr r c ''name'' = Some nm"
    "decoded_from (h' ! length h) r c"
    "Some (descr (h' ! length h)) = map_option PStr (record_attr r c ''descr'')"
    "u_parent (h' ! length h) = PNone"
    "\<forall>q<length h. h' ! q = h ! q"
    by blast
  from h'(2) Nil.prems(3) have "PStr nm = aaep_name"
    by (simp add: name_matches_def)
  with h' show ?case
    by (simp add: andThen_def)
next
  case (Cons x pre)
  from Cons.prems have kx: "has_attrs x c [''name'', ''dn'', ''lcOwn'', ''childAction'', ''descr'']"
    and nx: "\<not> name_matches x c aaep_name"
    and rest: "\<forall>x\<in>set pre. has_attrs x c [''name'', ''dn'', ''lcOwn'', ''childAction'', ''descr'']
              \<and> \<not> name_matches x c aaep_name"
    by simp_all
  from by_name_decode_ok[OF kx, of h] obtain nm h1 where h1:
    "AAEP_get_by_name_decode c x h = Inr (nm, length h, h1)"
    "record_attr x c ''name'' = Some nm"
    "length h1 = Suc (length h)"
    "\<forall>q<length h. h1 ! q = h ! q"
    by blast
  from h1(2) nx have ne: "PStr nm \<noteq> aaep_name"
    by (auto simp: name_matches_def)
  from Cons.IH[OF rest Cons.prems(2,3), of h1] obtain h' where h':
    "AAEP_get_by_name_loop c aaep_name (pre @ r # post) h1 = Inr (PObj (length h1 + length pre), h')"
    "decoded_from (h' ! (length h1 + length pre)) r c"
    "Some (descr (h' ! (length h1 + length pre))) = map_option PStr (record_attr r c ''descr'')"
    "u_parent (h' ! (length h1 + length pre)) = PNone"
    "\<forall>q<length h1. h' ! q = h1 ! q"
    by blast
  have run: "AAEP_get_by_name_loop c aaep_name ((x # pre) @ r # post) h =
      Inr (PObj (length h + length (x # pre)), h')"
    using h1(1,3) ne h'(1) by (simp add: andThen_def)
  have frame: "\<forall>q<length h. h' ! q = h ! q"
    using h'(5) h1(3,4) by simp
  from run frame h'(2-4) h1(3) show ?case by simp
qed

lemma by_name_loop_none:
  assumes "\<forall>x\<in>set data. has_attrs x c [''name'', ''dn'', ''lcOwn'', ''childAction'', ''descr'']
              \<and> \<not> name_matches x c aaep_name"
  shows "\<exists>h'. AAEP_get_by_name_loop c aaep_name data h = Inr (PNone, h')
    \<and> (\<forall>q<length h. h' ! q = h ! q)"
  using assms
proof (induction data arbitrary: h)
  case Nil
  then show ?case by simp
next
  case (Cons x data)
  from Cons.prems have kx: "has_attrs x c [''name'', ''dn'', ''lcOwn'', ''childAction'', ''descr'']"
    and nx: "\<not> name_matches x c aaep_name"
    and rest: "\<forall>x\<in>set data. has_attrs x c [''name'', ''dn'', ''lcOwn'', ''childAction'', ''descr'']
              \<and> \<not> name_matches x c aaep_name"
    by simp_all
  from by_name_decode_ok[OF kx, of h] obtain nm h1 where h1:
    "AAEP_get_by_name_decode c x h = Inr (nm, length h, h1)"
    "record_attr x c ''name'' = Some nm"
    "length h1 = Suc (length h)"
    "\<forall>q<length h. h1 ! q = h ! q"
    by blast
  from h1(2) nx have ne: "PStr nm \<noteq> aaep_name"
    by (auto simp: name_matches_def)
  from Cons.IH[OF rest, of h1] obtain h' where h':
    "AAEP_get_by_name_loop c aaep_name data h1 = Inr (PNone, h')"
    "\<forall>q<length h1. h' ! q = h1 ! q"
    by blast
  have run: "AAEP_get_by_name_loop c aaep_name (x # data) h = Inr (PNone, h')"
    using h1(1) ne h'(1) by (simp add: andThen_def)
  have frame: "\<forall>q<length h. h' ! q = h ! q"
    using h'(2) h1(3,4) by simp
  from run frame show ?case by blast
qed

lemma AAEP_get_by_name_unfold:
  assumes "isinstance h (PObj s) Session" "session_get E s query_url = Inr body"
    "body ''imdata'' = Some data"
  shows "AAEP_get_by_name E (PObj s) aaep_name h =
    AAEP_get_by_name_loop ''infraAttEntityP'' aaep_name data h"
  using assms
  by (simp add: AAEP_get_by_name_def Let_def Session_get_def andThen_def item_def
        AAEP_get_apic_classes_def query_url_def)

text \<open>
  Claim C5: when the records before the first record whose name is \<^verbatim>\<open>aaep_name\<close> carry
  \<^verbatim>\<open>name\<close>, \<^verbatim>\<open>dn\<close>, \<^verbatim>\<open>lcOwn\<close>, \<^verbatim>\<open>childAction\<close> and \<^verbatim>\<open>descr\<close> and so does that record,
  \<^verbatim>\<open>AAEP.get_by_name\<close> returns the AAEP decoded from that record, whatever follows it; and
  when every record carries them and none has that name, it returns None, not an error.
\<close>

theorem AAEP_get_by_name_first_match:
  assumes "isinstance h (PObj s) Session"
    and "session_get E s query_url = Inr body"
  shows "(body ''imdata'' = Some (pre @ r # post)
      \<and> (\<forall>x\<in>set pre. has_attrs x ''infraAttEntityP''
                          [''name'', ''dn'', ''lcOwn'', ''childAction'', ''descr'']
                        \<and> \<not> name_matches x ''infraAttEntityP'' aaep_name)
      \<and> has_attrs r ''infraAttEntityP'' [''name'', ''dn'', ''lcOwn'', ''childAction'', ''descr'']
      \<and> name_matches r ''infraAttEntityP'' aaep_name
      \<longrightarrow> (\<exists>obj h'. AAEP_get_by_name E (PObj s) aaep_name h = Inr (PObj obj, h')
             \<and> obj = length h + length pre
             \<and> decoded_from (h' ! obj) r ''infraAttEntityP''
             \<and> Some (descr (h' ! obj)) = map_option PStr (record_attr r ''infraAttEntityP'' ''descr'')
             \<and> u_parent (h' ! obj) = PNone))
   \<and> (body ''imdata'' = Some data
      \<and> (\<forall>x\<in>set data. has_attrs x ''infraAttEntityP''
                          [''name'', ''dn'', ''lcOwn'', ''childAction'', ''descr'']
                        \<and> \<not> name_matches x ''infraAttEntityP'' aaep_name)
      \<longrightarrow> (\<exists>h'. AAEP_get_by_name E (PObj s) aaep_name h = Inr (PNone, h')))"
proof (intro conjI impI)
  assume a: "body ''imdata'' = Some (pre @ r # post)
      \<and> (\<forall>x\<in>set pre. has_attrs x ''infraAttEntityP''
                          [''name'', ''dn'', ''lcOwn'', ''childAction'', ''descr'']
                        \<and> \<not> name_matches x ''infraAttEntityP'' aaep_name)
      \<and> has_attrs r ''infraAttEntityP'' [''name'', ''dn'', ''lcOwn'', ''childAction'', ''descr'']
      \<and> name_matches r ''infraAttEntityP'' aaep_name"
  then have u: "AAEP_get_by_name E (PObj s) aaep_name h =
      AAEP_get_by_name_loop ''infraAttEntityP'' aaep_name (pre @ r # post) h"
    using AAEP_get_by_name_unfold[OF assms, of "pre @ r # post"] by blast
  from a by_name_loop_found[of pre "''infraAttEntityP''" aaep_name r post h]
  obtain h' where
    "AAEP_get_by_name_loop ''infraAttEntityP'' aaep_name (pre @ r # post) h =
       Inr (PObj (length h + length pre), h')"
    "decoded_from (h' ! (length h + length pre)) r ''infraAttEntityP''"
    "Some (descr (h' ! (length h + length pre))) =
       map_option PStr (record_attr r ''infraAttEntityP'' ''descr'')"
    "u_parent (h' ! (length h + length pre)) = PNone"
    by blast
  with u show "\<exists>obj h'. AAEP_get_by_name E (PObj s) aaep_name h = Inr (PObj obj, h')
             \<and> obj = length h + length pre
             \<and> decoded_from (h' ! obj) r ''infraAttEntityP''
             \<and> Some (descr (h' ! obj)) = map_option PStr (record_attr r ''infraAttEntityP'' ''descr'')
             \<and> u_parent (h' ! obj) = PNone"
    by (intro exI[of _ "length h + length pre"] exI[of _ h']) simp
next
  assume a: "body ''imdata'' = Some data
      \<and> (\<forall>x\<in>set data. has_attrs x ''infraAttEntityP''
                          [''name'', ''dn'', ''lcOwn'', ''childAction'', ''descr'']
                        \<and> \<not> name_matches x ''infraAttEntityP'' aaep_name)"
  then have u: "AAEP_get_by_name E (PObj s) aaep_name h =
      AAEP_get_by_name_loop ''infraAttEntityP'' aaep_name data h"
    using AAEP_get_by_name_unfold[OF assms, of data] by blast
  from a by_name_loop_none[of data "''infraAttEntityP''" aaep_name h] u
  show "\<exists>h'. AAEP_get_by_name E (PObj s) aaep_name h = Inr (PNone, h')"
    by auto
qed


theorem AAEP_get_by_name_first_match_witness:
  "(\<exists>obj h'. AAEP_get_by_name
        (example_env [example_record ''a'' ''uni/infra/attentp-a'',
                      example_record ''b'' ''uni/infra/attentp-b'',
                      example_record ''b'' ''uni/infra/attentp-b2''])
        (PObj 0) (PStr ''b'') example_heap = Inr (PObj obj, h')
      \<and> obj = 3 \<and> name (h' ! obj) = PStr ''b'' \<and> dn (h' ! obj) = PStr ''uni/infra/attentp-b''
      \<and> descr (h' ! obj) = PStr ''profile'' \<and> u_parent (h' ! obj) = PNone)
   \<and> (\<exists>h'. AAEP_get_by_name
        (example_env [example_record ''a'' ''uni/infra/attentp-a'',
                      example_record ''b'' ''uni/infra/attentp-b'',
                      example_record ''b'' ''uni/infra/attentp-b2''])
        (PObj 0) (PStr ''c'') example_heap = Inr (PNone, h'))"
proof -
  let ?a = "example_record ''a'' ''uni/infra/attentp-a''"
  let ?b = "example_record ''b'' ''uni/infra/attentp-b''"
  let ?b2 = "example_record ''b'' ''uni/infra/attentp-b2''"
  let ?E = "example_env [?a, ?b, ?b2]"
  have 1: "isinstance example_heap (PObj 0) Session"
    by (simp add: isinstance_def example_heap_def new_object_def)
  have 2: "session_get ?E 0 query_url = Inr [''imdata'' \<mapsto> [?a, ?b, ?b2]]"
    by (simp add: example_env_def)
  have found: "[''imdata'' \<mapsto> [?a, ?b, ?b2]] ''imdata'' = Some ([?a] @ ?b # [?b2])
      \<and> (\<forall>x\<in>set [?a]. has_attrs x ''infraAttEntityP''
                          [''name'', ''dn'', ''lcOwn'', ''childAction'', ''descr'']
                        \<and> \<not> name_matches x ''infraAttEntityP'' (PStr ''b''))
      \<and> has_attrs ?b ''infraAttEntityP'' [''name'', ''dn'', ''lcOwn'', ''childAction'', ''descr'']
      \<and> name_matches ?b ''infraAttEntityP'' (PStr ''b'')"
    by (simp add: has_attrs_def record_attr_def example_record_def name_matches_def)
  have none: "[''imdata'' \<mapsto> [?a, ?b, ?b2]] ''imdata'' = Some [?a, ?b, ?b2]
      \<and> (\<forall>x\<in>set [?a, ?b, ?b2]. has_attrs x ''infraAttEntityP''
                          [''name'', ''dn'', ''lcOwn'', ''childAction'', ''descr'']
                        \<and> \<not> name_matches x ''infraAttEntityP'' (PStr ''c''))"
    by (simp add: has_attrs_def record_attr_def example_record_def name_matches_def)
  from AAEP_get_by_name_first_match[OF 1 2, of "[?a]" ?b "[?b2]" "PStr ''b''"] found
  obtain obj h' where f:
    "AAEP_get_by_name ?E (PObj 0) (PStr ''b'') example_heap = Inr (PObj obj, h')"
    "obj = length example_heap + length [?a]"
    "decoded_from (h' ! obj) ?b ''infraAttEntityP''"
    "Some (descr (h' ! obj)) = map_option PStr (record_attr ?b ''infraAttEntityP'' ''descr'')"
    "u_parent (h' ! obj) = PNone"
    by blast
  from f(2) have o: "obj = 3"
    by (simp add: example_heap_def)
  from f(3,4) have fields: "name (h' ! obj) = PStr ''b''" "dn (h' ! obj) = PStr ''uni/infra/attentp-b''"
    "descr (h' ! obj) = PStr ''profile''"
    by (simp_all add: decoded_from_def record_attr_def example_record_def)
  from AAEP_get_by_name_first_match[OF 1 2, of _ _ _ "PStr ''c''" "[?a, ?b, ?b2]"] none
  obtain h'' where n: "AAEP_get_by_name ?E (PObj 0) (PStr ''c'') example_heap = Inr (PNone, h'')"
    by blast
  from f(1,5) o fields n show ?thesis by blast
qed

lemma AAEP_init_ok:
  "par = PNone \<or> is_node h par \<Longrightarrow> \<exists>h1. AAEP_init nm par h = Inr (length h, h1)"
  by (cases par) (auto simp: AAEP_init_def BaseACIObject_init_def andThen_def Let_def is_node_def)

lemma decode_KeyError:
  assumes k: "\<not> has_attrs r c [''name'', ''dn'', ''lcOwn'', ''childAction'']"
    and p: "par = PNone \<or> is_node h par"
  shows "AAEP_get_decode c par r h = Inl KeyError"
proof (cases "attributes_of r c")
  case (Inl e)
  then have "e = KeyError"
    by (auto simp: attributes_of_def item_def andThen_def split: option.splits)
  with Inl show ?thesis
    by (simp add: AAEP_get_decode_def andThen_def)
next
  case (Inr a)
  then have ra: "\<And>k. record_attr r c k = a k"
    by (auto simp: record_attr_def attributes_of_def item_def andThen_def split: option.splits)
  show ?thesis
  proof (cases "a ''name''")
    case None
    with Inr show ?thesis
      by (simp add: AAEP_get_decode_def andThen_def item_def)
  next
    case (Some nm)
    from AAEP_init_ok[OF p, of "PStr nm"] obtain h1 where h1:
      "AAEP_init (PStr nm) par h = Inr (length h, h1)" by blast
    from k ra Some have "a ''dn'' = None \<or> a ''lcOwn'' = None \<or> a ''childAction'' = None"
      by (auto simp: has_attrs_def)
    with Inr Some h1 show ?thesis
      by (auto simp: AAEP_get_decode_def andThen_def item_def Let_def split: option.splits)
  qed
qed

lemma by_name_decode_KeyError:
  assumes k: "\<not> has_attrs r c [''name'', ''dn'', ''lcOwn'', ''childAction'', ''descr'']"
  shows "AAEP_get_by_name_decode c r h = Inl KeyError"
proof (cases "has_attrs r c [''name'', ''dn'', ''lcOwn'', ''childAction'']")
  case False
  from decode_KeyError[OF False, of PNone h] show ?thesis
    by (simp add: AAEP_get_by_name_decode_def andThen_def)
next
  case True
  from decode_step[OF True, of PNone h] obtain h5 where h5:
    "AAEP_get_decode c PNone r h = Inr (length h, h5)" by auto
  from True obtain nm where n: "record_attr r c ''name'' = Some nm"
    by (auto simp: has_attrs_def)
  from attributes_of_Some[OF n] obtain a where a: "attributes_of r c = Inr a" "a ''name'' = Some nm"
    by blast
  then have ra: "\<And>k. record_attr r c k = a k"
    by (auto simp: record_attr_def attributes_of_def item_def andThen_def split: option.splits)
  from k True ra have "a ''descr'' = None"
    by (auto simp: has_attrs_def)
  with h5 a show ?thesis
    by (simp add: AAEP_get_by_name_decode_def andThen_def item_def)
qed

lemma get_loop_KeyError:
  assumes "\<forall>x\<in>set pre. has_attrs x c [''name'', ''dn'', ''lcOwn'', ''childAction'']"
    and "\<not> has_attrs r c [''name'', ''dn'', ''lcOwn'', ''childAction'']"
    and "par = PNone \<or> is_node h par"
  shows "AAEP_get_loop c par (pre @ r # post) resp h = Inl KeyError"
  using assms
proof (induction pre arbitrary: resp h)
  case Nil
  from decode_KeyError[OF Nil.prems(2,3)] show ?case
    by (simp add: andThen_def)
next
  case (Cons x pre)
  from Cons.prems have kx: "has_attrs x c [''name'', ''dn'', ''lcOwn'', ''childAction'']"
    and rest: "\<forall>x\<in>set pre. has_attrs x c [''name'', ''dn'', ''lcOwn'', ''childAction'']"
    by simp_all
  from decode_step[OF kx Cons.prems(3)] obtain h1 where h1:
    "AAEP_get_decode c par x h = Inr (length h, h1)" "length h1 = Suc (length h)"
    by blast
  have p1: "par = PNone \<or> is_node h1 par"
    using is_node_mono[OF Cons.prems(3), of h1] h1(2) by simp
  from Cons.IH[OF rest Cons.prems(2) p1, of "resp @ [length h]"] h1(1) show ?case
    by (simp add: andThen_def)
qed

lemma by_name_loop_KeyError:
  assumes "\<forall>x\<in>set pre. has_attrs x c [''name'', ''dn'', ''lcOwn'', ''childAction'', ''descr'']
              \<and> \<not> name_matches x c aaep_name"
    and "\<not> has_attrs r c [''name'', ''dn'', ''lcOwn'', ''childAction'', ''descr'']"
  shows "AAEP_get_by_name_loop c aaep_name (pre @ r # post) h = Inl KeyError"
  using assms
proof (induction pre arbitrary: h)
  case Nil
  from by_name_decode_KeyError[OF Nil.prems(2)] show ?case
    by (simp add: andThen_def)
next
  case (Cons x pre)
  from Cons.prems have kx: "has_attrs x c [''name'', ''dn'', ''lcOwn'', ''childAction'', ''descr'']"
    and nx: "\<not> name_matches x c aaep_name"
    and rest: "\<forall>x\<in>set pre. has_attrs x c [''name'', ''dn'', ''lcOwn'', ''childAction'', ''descr'']
              \<and> \<not> name_matches x c aaep_name"
    by simp_all
  from by_name_decode_ok[OF kx, of h] obtain nm h1 where h1:
    "AAEP_get_by_name_decode c x h = Inr (nm, length h, h1)"
    "record_attr x c ''name'' = Some nm"
    by blast
  from h1(2) nx have ne: "PStr nm \<noteq> aaep_name"
    by (auto simp: name_matches_def)
  from Cons.IH[OF rest Cons.prems(2), of h1] h1(1) ne show ?case
    by (simp add: andThen_def)
qed

lemma AAEP_get_unfold:
  assumes "isinstance h (PObj s) Session" "session_get E s query_url = Inr body"
    "body ''imdata'' = Some data"
  shows "AAEP_get E (PObj s) par h = AAEP_get_loop ''infraAttEntityP'' par data [] h"
  using assms
  by (simp add: AAEP_get_def Let_def Session_get_def andThen_def item_def
        AAEP_get_apic_classes_def query_url_def)

lemma AAEP_populate_defaults:
  "a k = None \<Longrightarrow> dict_get (decoded a) k = PNone"
  by (simp add: dict_get_def decoded_def)

text \<open>
  Claim C10: when a record of the response lacks one of \<^verbatim>\<open>name\<close>, \<^verbatim>\<open>dn\<close>, \<^verbatim>\<open>lcOwn\<close>,
  \<^verbatim>\<open>childAction\<close> and the records before it carry them, \<^verbatim>\<open>AAEP.get\<close> raises KeyError; when
  a record lacks one of these or \<^verbatim>\<open>descr\<close> and the records before it carry them and have
  another name, \<^verbatim>\<open>AAEP.get_by_name\<close> raises KeyError; whereas populating from a mapping
  that lacks an attribute sets the field to None.
\<close>

theorem missing_key_raises:
  assumes "isinstance h (PObj s) Session"
    and "session_get E s query_url = Inr body"
    and "body ''imdata'' = Some (pre @ r # post)"
  shows "((\<forall>x\<in>set pre. has_attrs x ''infraAttEntityP'' [''name'', ''dn'', ''lcOwn'', ''childAction''])
      \<and> \<not> has_attrs r ''infraAttEntityP'' [''name'', ''dn'', ''lcOwn'', ''childAction'']
      \<and> (par = PNone \<or> is_node h par)
      \<longrightarrow> AAEP_get E (PObj s) par h = Inl KeyError)
   \<and> ((\<forall>x\<in>set pre. has_attrs x ''infraAttEntityP''
                         [''name'', ''dn'', ''lcOwn'', ''childAction'', ''descr'']
                       \<and> \<not> name_matches x ''infraAttEntityP'' aaep_name)
      \<and> \<not> has_attrs r ''infraAttEntityP'' [''name'', ''dn'', ''lcOwn'', ''childAction'', ''descr'']
      \<longrightarrow> AAEP_get_by_name E (PObj s) aaep_name h = Inl KeyError)
   \<and> (a ''dn'' = None \<longrightarrow> dn (AAEP_populate_from_attributes (decoded a) n) = PNone)
   \<and> (a ''lcOwn'' = None \<longrightarrow> lcOwn (AAEP_populate_from_attributes (decoded a) n) = PNone)
   \<and> (a ''childAction'' = None \<longrightarrow>
        childAction (AAEP_populate_from_attributes (decoded a) n) = PNone)
   \<and> (a ''name'' = None \<longrightarrow> name (AAEP_populate_from_attributes (decoded a) n) = PNone)
   \<and> (a ''descr'' = None \<longrightarrow> descr (AAEP_populate_from_attributes (decoded a) n) = PNone)"
proof -
  have g: "(\<forall>x\<in>set pre. has_attrs x ''infraAttEntityP'' [''name'', ''dn'', ''lcOwn'', ''childAction''])
      \<and> \<not> has_attrs r ''infraAttEntityP'' [''name'', ''dn'', ''lcOwn'', ''childAction'']
      \<and> (par = PNone \<or> is_node h par)
      \<longrightarrow> AAEP_get E (PObj s) par h = Inl KeyError"
    using AAEP_get_unfold[OF assms, of par]
      get_loop_KeyError[of pre "''infraAttEntityP''" r par h post "[]"]
    by auto
  have b: "(\<forall>x\<in>set pre. has_attrs x ''infraAttEntityP''
                         [''name'', ''dn'', ''lcOwn'', ''childAction'', ''descr'']
                       \<and> \<not> name_matches x ''infraAttEntityP'' aaep_name)
      \<and> \<not> has_attrs r ''infraAttEntityP'' [''name'', ''dn'', ''lcOwn'', ''childAction'', ''descr'']
      \<longrightarrow> AAEP_get_by_name E (PObj s) aaep_name h = Inl KeyError"
    using AAEP_get_by_name_unfold[OF assms, of aaep_name]
      by_name_loop_KeyError[of pre "''infraAttEntityP''" aaep_name r post h]
    by auto
  have p: "a ''dn'' = None \<longrightarrow> dn (AAEP_populate_from_attributes (decoded a) n) = PNone"
    "a ''lcOwn'' = None \<longrightarrow> lcOwn (AAEP_populate_from_attributes (decoded a) n) = PNone"
    "a ''childAction'' = None \<longrightarrow>
        childAction (AAEP_populate_from_attributes (decoded a) n) = PNone"
    "a ''name'' = None \<longrightarrow> name (AAEP_populate_from_attributes (decoded a) n) = PNone"
    "a ''descr'' = None \<longrightarrow> descr (AAEP_populate_from_attributes (decoded a) n) = PNone"
    by (simp_all add: AAEP_populate_from_attributes_def get_dn_from_attributes_def
          AAEP_populate_defaults)
  show ?thesis
    by (intro conjI) (rule g b p)+
qed

theorem missing_key_raises_witness:
  "AAEP_get (example_env [example_record ''a'' ''uni/infra/attentp-a'',
                          example_record_without ''lcOwn'' ''b'' ''uni/infra/attentp-b''])
     (PObj 0) (PObj 1) example_heap = Inl KeyError
   \<and> AAEP_get_by_name (example_env [example_record ''a'' ''uni/infra/attentp-a'',
                          example_record_without ''descr'' ''b'' ''uni/infra/attentp-b''])
     (PObj 0) (PStr ''b'') example_heap = Inl KeyError
   \<and> lcOwn (AAEP_populate_from_attributes (decoded [''name'' \<mapsto> ''b''])
        ((new_object AAEP)\<lparr>lcOwn := PStr ''local''\<rparr>)) = PNone"
proof -
  let ?a = "example_record ''a'' ''uni/infra/attentp-a''"
  let ?l = "example_record_without ''lcOwn'' ''b'' ''uni/infra/attentp-b''"
  let ?d = "example_record_without ''descr'' ''b'' ''uni/infra/attentp-b''"
  have 1: "isinstance example_heap (PObj 0) Session"
    by (simp add: isinstance_def example_heap_def new_object_def)
  have 2: "session_get (example_env [?a, ?l]) 0 query_url = Inr [''imdata'' \<mapsto> [?a, ?l]]"
    "session_get (example_env [?a, ?d]) 0 query_url = Inr [''imdata'' \<mapsto> [?a, ?d]]"
    by (simp_all add: example_env_def)
  have 3: "[''imdata'' \<mapsto> [?a, ?l]] ''imdata'' = Some ([?a] @ ?l # [])"
    "[''imdata'' \<mapsto> [?a, ?d]] ''imdata'' = Some ([?a] @ ?d # [])"
    by simp_all
  have g: "(\<forall>x\<in>set [?a]. has_attrs x ''infraAttEntityP'' [''name'', ''dn'', ''lcOwn'', ''childAction''])
      \<and> \<not> has_attrs ?l ''infraAttEntityP'' [''name'', ''dn'', ''lcOwn'', ''childAction'']
      \<and> (PObj 1 = PNone \<or> is_node example_heap (PObj 1))"
    by (simp add: has_attrs_def record_attr_def example_record_def example_record_without_def
          is_node_def example_heap_def)
  have b: "(\<forall>x\<in>set [?a]. has_attrs x ''infraAttEntityP''
                         [''name'', ''dn'', ''lcOwn'', ''childAction'', ''descr'']
                       \<and> \<not> name_matches x ''infraAttEntityP'' (PStr ''b''))
      \<and> \<not> has_attrs ?d ''infraAttEntityP'' [''name'', ''dn'', ''lcOwn'', ''childAction'', ''descr'']"
    by (simp add: has_attrs_def record_attr_def example_record_def example_record_without_def
          name_matches_def)
  have p: "[''name'' \<mapsto> ''b''] ''lcOwn'' = None"
    by simp
  from g missing_key_raises[OF 1 2(1) 3(1), of "PObj 1"]
  have r1: "AAEP_get (example_env [?a, ?l]) (PObj 0) (PObj 1) example_heap = Inl KeyError"
    by blast
  from b missing_key_raises[OF 1 2(2) 3(2), of _ "PStr ''b''"]
  have r2: "AAEP_get_by_name (example_env [?a, ?d]) (PObj 0) (PStr ''b'') example_heap = Inl KeyError"
    by blast
  from p missing_key_raises[OF 1 2(1) 3(1), of _ _ "[''name'' \<mapsto> ''b'']"
      "(new_object AAEP)\<lparr>lcOwn := PStr ''local''\<rparr>"]
  have r3: "lcOwn (AAEP_populate_from_attributes (decoded [''name'' \<mapsto> ''b''])
        ((new_object AAEP)\<lparr>lcOwn := PStr ''local''\<rparr>)) = PNone"
    by blast
  from r1 r2 r3 show ?thesis by blast
qed

section \<open>Populating the children of the logical model\<close>

lemma world_eq: "w\<lparr>calls := c, objs := h\<rparr> = \<lparr>objs = h, calls = c\<rparr>"
  by (cases w) simp

lemma populate_children_unfold:
  "LogicalModel_populate_children E self deep ic w =
     andThen (class_method E Tenant (if deep then Get_deep else Get)
                (u_session (objs w ! self)) (PObj self) (objs w)) (\<lambda>h1.
     andThen (class_method E PhysDomain (if deep then Get_deep else Get)
                (u_session (h1 ! self)) (PObj self) h1) (\<lambda>h2.
     andThen (class_method E AAEP (if deep then Get_deep else Get)
                (u_session (h2 ! self)) (PObj self) h2) (\<lambda>h3.
     Inr (u_children (h3 ! self),
          \<lparr>objs = h3,
           calls = calls w @
             [Call Tenant (if deep then Get_deep else Get) (u_session (objs w ! self)) (PObj self),
              Call PhysDomain (if deep then Get_deep else Get) (u_session (h1 ! self)) (PObj self),
              Call AAEP (if deep then Get_deep else Get) (u_session (h2 ! self)) (PObj self)]\<rparr>))))"
  by (cases deep)
     (auto simp: LogicalModel_populate_children_def LogicalModel_get_children_classes_def
        invoke_def andThen_def Let_def world_eq split: sum.splits)


lemma populate_children_Inr:
  assumes "LogicalModel_populate_children E self deep ic w = Inr (res, w')"
  shows "(\<exists>h1 h2.
        class_method E Tenant (if deep then Get_deep else Get)
          (u_session (objs w ! self)) (PObj self) (objs w) = Inr h1
      \<and> class_method E PhysDomain (if deep then Get_deep else Get)
          (u_session (h1 ! self)) (PObj self) h1 = Inr h2
      \<and> class_method E AAEP (if deep then Get_deep else Get)
          (u_session (h2 ! self)) (PObj self) h2 = Inr (objs w')
      \<and> calls w' = calls w @
          [Call Tenant (if deep then Get_deep else Get) (u_session (objs w ! self)) (PObj self),
           Call PhysDomain (if deep then Get_deep else Get) (u_session (h1 ! self)) (PObj self),
           Call AAEP (if deep then Get_deep else Get) (u_session (h2 ! self)) (PObj self)])
    \<and> res = u_children (objs w' ! self)"
  using assms unfolding populate_children_unfold
  by (auto simp: andThen_def split: sum.splits)

lemma populate_children_runs:
  assumes "class_method E Tenant (if deep then Get_deep else Get)
          (u_session (objs w ! self)) (PObj self) (objs w) = Inr h1"
    and "class_method E PhysDomain (if deep then Get_deep else Get)
          (u_session (h1 ! self)) (PObj self) h1 = Inr h2"
    and "class_method E AAEP (if deep then Get_deep else Get)
          (u_session (h2 ! self)) (PObj self) h2 = Inr h3"
  shows "LogicalModel_populate_children E self deep ic w =
      Inr (u_children (h3 ! self),
           \<lparr>objs = h3,
            calls = calls w @
              [Call Tenant (if deep then Get_deep else Get) (u_session (objs w ! self)) (PObj self),
               Call PhysDomain (if deep then Get_deep else Get) (u_session (h1 ! self)) (PObj self),
               Call AAEP (if deep then Get_deep else Get) (u_session (h2 ! self)) (PObj self)]\<rparr>)"
  using assms unfolding populate_children_unfold
  by (simp add: andThen_def)

lemma populate_children_attaches:
  assumes t: "class_get E Tenant (u_session (objs w ! self)) (PObj self) (objs w) = Inr h1"
    and p: "class_get E PhysDomain (u_session (h1 ! self)) (PObj self) h1 = Inr h2"
    and self: "self < length h2"
    and s: "u_session (h2 ! self) = PObj s" "isinstance h2 (PObj s) Session"
    and q: "session_get E s query_url = Inr body" "body ''imdata'' = Some data"
    and k: "\<forall>r\<in>set data. has_attrs r ''infraAttEntityP'' [''name'', ''dn'', ''lcOwn'', ''childAction'']"
  shows "\<exists>w'. LogicalModel_populate_children E self False ic w =
        Inr (u_children (h2 ! self) @ [length h2..<length h2 + length data], w')
    \<and> (\<forall>i<length data. decoded_from (objs w' ! (length h2 + i)) (data ! i) ''infraAttEntityP''
          \<and> u_parent (objs w' ! (length h2 + i)) = PObj self)"
proof -
  have node: "PObj self = PNone \<or> is_node h2 (PObj self)"
    using self by (simp add: is_node_def)
  from get_loop_ok[OF k node, of "[]"] obtain h3 where h3:
    "AAEP_get_loop ''infraAttEntityP'' (PObj self) data [] h2 =
       Inr ([length h2..<length h2 + length data], h3)"
    "\<forall>i<length data. decoded_from (h3 ! (length h2 + i)) (data ! i) ''infraAttEntityP''
          \<and> u_parent (h3 ! (length h2 + i)) = PObj self"
    "\<forall>q<length h2. PObj self = PObj q \<longrightarrow>
          h3 ! q = (h2 ! q)\<lparr>u_children := u_children (h2 ! q) @ [length h2..<length h2 + length data]\<rparr>"
    by auto
  have kids: "u_children (h3 ! self) = u_children (h2 ! self) @ [length h2..<length h2 + length data]"
    using h3(3) self by simp
  have a: "class_method E AAEP (if False then Get_deep else Get) (u_session (h2 ! self)) (PObj self) h2
      = Inr h3"
    using AAEP_get_unfold[OF s(2) q, of "PObj self"] h3(1) s(1)
    by (simp add: class_method_def child_class_get_def andThen_def)
  have t': "class_method E Tenant (if False then Get_deep else Get)
          (u_session (objs w ! self)) (PObj self) (objs w) = Inr h1"
    using t by (simp add: class_method_def child_class_get_def)
  have p': "class_method E PhysDomain (if False then Get_deep else Get)
          (u_session (h1 ! self)) (PObj self) h1 = Inr h2"
    using p by (simp add: class_method_def child_class_get_def)
  from populate_children_runs[OF t' p' a, of ic] kids h3(2) show ?thesis
    by simp
qed


lemma class_method_Get_deep:
  "class_method E c Get_deep session par h = class_get_deep E c session par h"
  by (simp add: class_method_def)

lemma class_method_Get:
  "c \<noteq> AAEP \<Longrightarrow> class_method E c Get session par h = class_get E c session par h"
  by (simp add: class_method_def child_class_get_def)

lemma class_method_Get_AAEP:
  "(class_method E AAEP Get session par h = Inr h') =
   (\<exists>resp. AAEP_get E session par h = Inr (resp, h'))"
  by (auto simp: class_method_def child_class_get_def andThen_def split: sum.splits)

lemma populate_children_deep_Inr:
  assumes "LogicalModel_populate_children E self True ic w = Inr (res, w')"
  shows "(\<exists>h1 h2.
        class_get_deep E Tenant (u_session (objs w ! self)) (PObj self) (objs w) = Inr h1
      \<and> class_get_deep E PhysDomain (u_session (h1 ! self)) (PObj self) h1 = Inr h2
      \<and> class_get_deep E AAEP (u_session (h2 ! self)) (PObj self) h2 = Inr (objs w')
      \<and> calls w' = calls w @
          [Call Tenant Get_deep (u_session (objs w ! self)) (PObj self),
           Call PhysDomain Get_deep (u_session (h1 ! self)) (PObj self),
           Call AAEP Get_deep (u_session (h2 ! self)) (PObj self)])
    \<and> res = u_children (objs w' ! self)"
  using populate_children_Inr[OF assms] by (simp add: class_method_Get_deep)

lemma populate_children_shallow_Inr:
  assumes "LogicalModel_populate_children E self False ic w = Inr (res, w')"
  shows "(\<exists>h1 h2 resp.
        class_get E Tenant (u_session (objs w ! self)) (PObj self) (objs w) = Inr h1
      \<and> class_get E PhysDomain (u_session (h1 ! self)) (PObj self) h1 = Inr h2
      \<and> AAEP_get E (u_session (h2 ! self)) (PObj self) h2 = Inr (resp, objs w')
      \<and> calls w' = calls w @
          [Call Tenant Get (u_session (objs w ! self)) (PObj self),
           Call PhysDomain Get (u_session (h1 ! self)) (PObj self),
           Call AAEP Get (u_session (h2 ! self)) (PObj self)])
    \<and> res = u_children (objs w' ! self)"
proof -
  from populate_children_Inr[OF assms] obtain h1 h2 where h:
    "class_method E Tenant Get (u_session (objs w ! self)) (PObj self) (objs w) = Inr h1"
    "class_method E PhysDomain Get (u_session (h1 ! self)) (PObj self) h1 = Inr h2"
    "class_method E AAEP Get (u_session (h2 ! self)) (PObj self) h2 = Inr (objs w')"
    "calls w' = calls w @
          [Call Tenant Get (u_session (objs w ! self)) (PObj self),
           Call PhysDomain Get (u_session (h1 ! self)) (PObj self),
           Call AAEP Get (u_session (h2 ! self)) (PObj self)]"
    and r: "res = u_children (objs w' ! self)"
    by auto
  from h(3) obtain resp where
    "AAEP_get E (u_session (h2 ! self)) (PObj self) h2 = Inr (resp, objs w')"
    by (auto simp: class_method_Get_AAEP)
  with h(1,2,4) r show ?thesis
    by (auto simp: class_method_Get)
qed

lemma populate_children_deep_runs:
  assumes "class_get_deep E Tenant (u_session (objs w ! self)) (PObj self) (objs w) = Inr g1"
    and "class_get_deep E PhysDomain (u_session (g1 ! self)) (PObj self) g1 = Inr g2"
    and "class_get_deep E AAEP (u_session (g2 ! self)) (PObj self) g2 = Inr g3"
  shows "LogicalModel_populate_children E self True ic w =
      Inr (u_children (g3 ! self),
           \<lparr>objs = g3,
            calls = calls w @
              [Call Tenant Get_deep (u_session (objs w ! self)) (PObj self),
               Call PhysDomain Get_deep (u_session (g1 ! self)) (PObj self),
               Call AAEP Get_deep (u_session (g2 ! self)) (PObj self)]\<rparr>)"
  using populate_children_runs[of E True w self g1 g2 g3 ic] assms
  by (simp add: class_method_Get_deep)

lemma populate_children_shallow_runs:
  assumes "class_get E Tenant (u_session (objs w ! self)) (PObj self) (objs w) = Inr f1"
    and "class_get E PhysDomain (u_session (f1 ! self)) (PObj self) f1 = Inr f2"
    and "AAEP_get E (u_session (f2 ! self)) (PObj self) f2 = Inr (resp, f3)"
  shows "LogicalModel_populate_children E self False ic w =
      Inr (u_children (f3 ! self),
           \<lparr>objs = f3,
            calls = calls w @
              [Call Tenant Get (u_session (objs w ! self)) (PObj self),
               Call PhysDomain Get (u_session (f1 ! self)) (PObj self),
               Call AAEP Get (u_session (f2 ! self)) (PObj self)]\<rparr>)"
proof -
  from assms(3) have "class_method E AAEP Get (u_session (f2 ! self)) (PObj self) f2 = Inr f3"
    by (auto simp: class_method_Get_AAEP)
  with populate_children_runs[of E False w self f1 f2 f3 ic] assms(1,2) show ?thesis
    by (simp add: class_method_Get)
qed

text \<open>
  Claim C6: a call of \<^verbatim>\<open>populate_children\<close> that returns has called, once each and in this
  order, with the node as the parent, \<^verbatim>\<open>get_deep\<close> of Tenant, of PhysDomain and of AAEP when
  \<^verbatim>\<open>deep\<close> is true, and \<^verbatim>\<open>get\<close> of Tenant, of PhysDomain and of AAEP when it is false, each
  call running on the heap the one before left, and it returns the children of the node; it
  returns whenever these three calls return; and for \<^verbatim>\<open>AAEP.get\<close>, whose source is at hand,
  the objects it decodes are appended to the children that are returned.
\<close>

theorem populate_children_once_per_class:
  "(LogicalModel_populate_children E self True ic w = Inr (res, w') \<longrightarrow>
      (\<exists>h1 h2.
          class_get_deep E Tenant (u_session (objs w ! self)) (PObj self) (objs w) = Inr h1
        \<and> class_get_deep E PhysDomain (u_session (h1 ! self)) (PObj self) h1 = Inr h2
        \<and> class_get_deep E AAEP (u_session (h2 ! self)) (PObj self) h2 = Inr (objs w')
        \<and> calls w' = calls w @
            [Call Tenant Get_deep (u_session (objs w ! self)) (PObj self),
             Call PhysDomain Get_deep (u_session (h1 ! self)) (PObj self),
             Call AAEP Get_deep (u_session (h2 ! self)) (PObj self)])
      \<and> res = u_children (objs w' ! self))
   \<and> (LogicalModel_populate_children E self False ic w = Inr (res, w') \<longrightarrow>
      (\<exists>h1 h2 resp.
          class_get E Tenant (u_session (objs w ! self)) (PObj self) (objs w) = Inr h1
        \<and> class_get E PhysDomain (u_session (h1 ! self)) (PObj self) h1 = Inr h2
        \<and> AAEP_get E (u_session (h2 ! self)) (PObj self) h2 = Inr (resp, objs w')
        \<and> calls w' = calls w @
            [Call Tenant Get (u_session (objs w ! self)) (PObj self),
             Call PhysDomain Get (u_session (h1 ! self)) (PObj self),
             Call AAEP Get (u_session (h2 ! self)) (PObj self)])
      \<and> res = u_children (objs w' ! self))
   \<and> (class_get_deep E Tenant (u_session (objs w ! self)) (PObj self) (objs w) = Inr g1
      \<and> class_get_deep E PhysDomain (u_session (g1 ! self)) (PObj self) g1 = Inr g2
      \<and> class_get_deep E AAEP (u_session (g2 ! self)) (PObj self) g2 = Inr g3
      \<longrightarrow> LogicalModel_populate_children E self True ic w =
            Inr (u_children (g3 ! self),
                 \<lparr>objs = g3,
                  calls = calls w @
                    [Call Tenant Get_deep (u_session (objs w ! self)) (PObj self),
                     Call PhysDomain Get_deep (u_session (g1 ! self)) (PObj self),
                     Call AAEP Get_deep (u_session (g2 ! self)) (PObj self)]\<rparr>))
   \<and> (class_get E Tenant (u_session (objs w ! self)) (PObj self) (objs w) = Inr f1
      \<and> class_get E PhysDomain (u_session (f1 ! self)) (PObj self) f1 = Inr f2
      \<and> AAEP_get E (u_session (f2 ! self)) (PObj self) f2 = Inr (resp0, f3)
      \<longrightarrow> LogicalModel_populate_children E self False ic w =
            Inr (u_children (f3 ! self),
                 \<lparr>objs = f3,
                  calls = calls w @
                    [Call Tenant Get (u_session (objs w ! self)) (PObj self),
                     Call PhysDomain Get (u_session (f1 ! self)) (PObj self),
                     Call AAEP Get (u_session (f2 ! self)) (PObj self)]\<rparr>))
   \<and> (class_get E Tenant (u_session (objs w ! self)) (PObj self) (objs w) = Inr k1
      \<and> class_get E PhysDomain (u_session (k1 ! self)) (PObj self) k1 = Inr k2
      \<and> self < length k2 \<and> u_session (k2 ! self) = PObj s \<and> isinstance k2 (PObj s) Session
      \<and> session_get E s query_url = Inr body \<and> body ''imdata'' = Some data
      \<and> (\<forall>r\<in>set data. has_attrs r ''infraAttEntityP'' [''name'', ''dn'', ''lcOwn'', ''childAction''])
      \<longrightarrow> (\<exists>v. LogicalModel_populate_children E self False ic w =
                  Inr (u_children (k2 ! self) @ [length k2..<length k2 + length data], v)
             \<and> (\<forall>i<length data.
                    decoded_from (objs v ! (length k2 + i)) (data ! i) ''infraAttEntityP''
                  \<and> u_parent (objs v ! (length k2 + i)) = PObj self)))"
proof -
  have a: "LogicalModel_populate_children E self True ic w = Inr (res, w') \<longrightarrow>
      (\<exists>h1 h2.
          class_get_deep E Tenant (u_session (objs w ! self)) (PObj self) (objs w) = Inr h1
        \<and> class_get_deep E PhysDomain (u_session (h1 ! self)) (PObj self) h1 = Inr h2
        \<and> class_get_deep E AAEP (u_session (h2 ! self)) (PObj self) h2 = Inr (objs w')
        \<and> calls w' = calls w @
            [Call Tenant Get_deep (u_session (objs w ! self)) (PObj self),
             Call PhysDomain Get_deep (u_session (h1 ! self)) (PObj self),
             Call AAEP Get_deep (u_session (h2 ! self)) (PObj self)])
      \<and> res = u_children (objs w' ! self)"
    using populate_children_deep_Inr[of E self ic w res w'] by blast
  have b: "LogicalModel_populate_children E self False ic w = Inr (res, w') \<longrightarrow>
      (\<exists>h1 h2 resp.
          class_get E Tenant (u_session (objs w ! self)) (PObj self) (objs w) = Inr h1
        \<and> class_get E PhysDomain (u_session (h1 ! self)) (PObj self) h1 = Inr h2
        \<and> AAEP_get E (u_session (h2 ! self)) (PObj self) h2 = Inr (resp, objs w')
        \<and> calls w' = calls w @
            [Call Tenant Get (u_session (objs w ! self)) (PObj self),
             Call PhysDomain Get (u_session (h1 ! self)) (PObj self),
             Call AAEP Get (u_session (h2 ! self)) (PObj self)])
      \<and> res = u_children (objs w' ! self)"
    using populate_children_shallow_Inr[of E self ic w res w'] by blast
  have c: "class_get_deep E Tenant (u_session (objs w ! self)) (PObj self) (objs w) = Inr g1
      \<and> class_get_deep E PhysDomain (u_session (g1 ! self)) (PObj self) g1 = Inr g2
      \<and> class_get_deep E AAEP (u_session (g2 ! self)) (PObj self) g2 = Inr g3
      \<longrightarrow> LogicalModel_populate_children E self True ic w =
            Inr (u_children (g3 ! self),
                 \<lparr>objs = g3,
                  calls = calls w @
                    [Call Tenant Get_deep (u_session (objs w ! self)) (PObj self),
                     Call PhysDomain Get_deep (u_session (g1 ! self)) (PObj self),
                     Call AAEP Get_deep (u_session (g2 ! self)) (PObj self)]\<rparr>)"
    using populate_children_deep_runs[of E w self g1 g2 g3 ic] by blast
  have d: "class_get E Tenant (u_session (objs w ! self)) (PObj self) (objs w) = Inr f1
      \<and> class_get E PhysDomain (u_session (f1 ! self)) (PObj self) f1 = Inr f2
      \<and> AAEP_get E (u_session (f2 ! self)) (PObj self) f2 = Inr (resp0, f3)
      \<longrightarrow> LogicalModel_populate_children E self False ic w =
            Inr (u_children (f3 ! self),
                 \<lparr>objs = f3,
                  calls = calls w @
                    [Call Tenant Get (u_session (objs w ! self)) (PObj self),
                     Call PhysDomain Get (u_session (f1 ! self)) (PObj self),
                     Call AAEP Get (u_session (f2 ! self)) (PObj self)]\<rparr>)"
    using populate_children_shallow_runs[of E w self f1 f2 resp0 f3 ic] by blast
  have e: "class_get E Tenant (u_session (objs w ! self)) (PObj self) (objs w) = Inr k1
      \<and> class_get E PhysDomain (u_session (k1 ! self)) (PObj self) k1 = Inr k2
      \<and> self < length k2 \<and> u_session (k2 ! self) = PObj s \<and> isinstance k2 (PObj s) Session
      \<and> session_get E s query_url = Inr body \<and> body ''imdata'' = Some data
      \<and> (\<forall>r\<in>set data. has_attrs r ''infraAttEntityP'' [''name'', ''dn'', ''lcOwn'', ''childAction''])
      \<longrightarrow> (\<exists>v. LogicalModel_populate_children E self False ic w =
                  Inr (u_children (k2 ! self) @ [length k2..<length k2 + length data], v)
             \<and> (\<forall>i<length data.
                    decoded_from (objs v ! (length k2 + i)) (data ! i) ''infraAttEntityP''
                  \<and> u_parent (objs v ! (length k2 + i)) = PObj self))"
    using populate_children_attaches[of E w self k1 k2 s body data ic] by blast
  show ?thesis
    by (intro conjI) (rule a b c d e)+
qed

theorem populate_children_once_per_class_witness:
  "(\<exists>v. LogicalModel_populate_children
           (example_env [example_record ''a'' ''uni/infra/attentp-a'',
                         example_record ''b'' ''uni/infra/attentp-b''])
           1 False False \<lparr>objs = example_heap, calls = []\<rparr> = Inr ([2, 3, 4, 5], v)
        \<and> calls v = [Call Tenant Get (PObj 0) (PObj 1), Call PhysDomain Get (PObj 0) (PObj 1),
                     Call AAEP Get (PObj 0) (PObj 1)]
        \<and> u_children (objs v ! 1) = [2, 3, 4, 5]
        \<and> u_parent (objs v ! 4) = PObj 1 \<and> u_parent (objs v ! 5) = PObj 1)
   \<and> LogicalModel_populate_children
        (example_env [example_record ''a'' ''uni/infra/attentp-a'',
                      example_record ''b'' ''uni/infra/attentp-b''])
        1 True False \<lparr>objs = example_heap, calls = []\<rparr> =
      Inr ([2, 3, 4],
           \<lparr>objs = [new_object Session,
                    (new_object LogicalModel)\<lparr>name := PStr [], u_session := PObj 0,
                       dn := PStr ''logical'', u_children := [2, 3, 4]\<rparr>,
                    (new_object Tenant)\<lparr>name := PStr ''get_deep'', u_parent := PObj 1\<rparr>,
                    (new_object PhysDomain)\<lparr>name := PStr ''get_deep'', u_parent := PObj 1\<rparr>,
                    (new_object AAEP)\<lparr>name := PStr ''get_deep'', u_parent := PObj 1\<rparr>],
            calls = [Call Tenant Get_deep (PObj 0) (PObj 1),
                     Call PhysDomain Get_deep (PObj 0) (PObj 1),
                     Call AAEP Get_deep (PObj 0) (PObj 1)]\<rparr>)"
proof -
  let ?data = "[example_record ''a'' ''uni/infra/attentp-a'',
                example_record ''b'' ''uni/infra/attentp-b'']"
  let ?E = "example_env ?data"
  let ?w = "\<lparr>objs = example_heap, calls = []\<rparr>"
  let ?lm = "(new_object LogicalModel)\<lparr>name := PStr [], u_session := PObj 0,
                dn := PStr ''logical''\<rparr>"
  let ?k1 = "[new_object Session, ?lm\<lparr>u_children := [2]\<rparr>,
              (new_object Tenant)\<lparr>name := PStr ''get'', u_parent := PObj 1\<rparr>]"
  let ?k2 = "[new_object Session, ?lm\<lparr>u_children := [2, 3]\<rparr>,
              (new_object Tenant)\<lparr>name := PStr ''get'', u_parent := PObj 1\<rparr>,
              (new_object PhysDomain)\<lparr>name := PStr ''get'', u_parent := PObj 1\<rparr>]"
  let ?g1 = "[new_object Session, ?lm\<lparr>u_children := [2]\<rparr>,
              (new_object Tenant)\<lparr>name := PStr ''get_deep'', u_parent := PObj 1\<rparr>]"
  let ?g2 = "[new_object Session, ?lm\<lparr>u_children := [2, 3]\<rparr>,
              (new_object Tenant)\<lparr>name := PStr ''get_deep'', u_parent := PObj 1\<rparr>,
              (new_object PhysDomain)\<lparr>name := PStr ''get_deep'', u_parent := PObj 1\<rparr>]"
  let ?g3 = "[new_object Session, ?lm\<lparr>u_children := [2, 3, 4]\<rparr>,
              (new_object Tenant)\<lparr>name := PStr ''get_deep'', u_parent := PObj 1\<rparr>,
              (new_object PhysDomain)\<lparr>name := PStr ''get_deep'', u_parent := PObj 1\<rparr>,
              (new_object AAEP)\<lparr>name := PStr ''get_deep'', u_parent := PObj 1\<rparr>]"
  have t: "class_get ?E Tenant (u_session (objs ?w ! 1)) (PObj 1) (objs ?w) = Inr ?k1"
    by (simp add: example_env_def example_attach_def BaseACIObject_init_def andThen_def Let_def
          example_heap_def new_object_def)
  have p: "class_get ?E PhysDomain (u_session (?k1 ! 1)) (PObj 1) ?k1 = Inr ?k2"
    by (simp add: example_env_def example_attach_def BaseACIObject_init_def andThen_def Let_def
          new_object_def)
  have rest: "1 < length ?k2 \<and> u_session (?k2 ! 1) = PObj 0
      \<and> isinstance ?k2 (PObj 0) Session
      \<and> session_get ?E 0 query_url = Inr [''imdata'' \<mapsto> ?data]
      \<and> [''imdata'' \<mapsto> ?data] ''imdata'' = Some ?data
      \<and> (\<forall>r\<in>set ?data. has_attrs r ''infraAttEntityP'' [''name'', ''dn'', ''lcOwn'', ''childAction''])"
    by (simp add: example_env_def isinstance_def has_attrs_def record_attr_def
          example_record_def new_object_def)
  from t p rest have att:
    "class_get ?E Tenant (u_session (objs ?w ! 1)) (PObj 1) (objs ?w) = Inr ?k1
      \<and> class_get ?E PhysDomain (u_session (?k1 ! 1)) (PObj 1) ?k1 = Inr ?k2
      \<and> 1 < length ?k2 \<and> u_session (?k2 ! 1) = PObj 0
      \<and> isinstance ?k2 (PObj 0) Session
      \<and> session_get ?E 0 query_url = Inr [''imdata'' \<mapsto> ?data]
      \<and> [''imdata'' \<mapsto> ?data] ''imdata'' = Some ?data
      \<and> (\<forall>r\<in>set ?data. has_attrs r ''infraAttEntityP'' [''name'', ''dn'', ''lcOwn'', ''childAction''])"
    by blast
  from populate_children_once_per_class
         [THEN conjunct2, THEN conjunct2, THEN conjunct2, THEN conjunct2, rule_format, OF att]
  obtain v where v:
    "LogicalModel_populate_children ?E 1 False False ?w =
       Inr (u_children (?k2 ! 1) @ [length ?k2..<length ?k2 + length ?data], v)"
    "\<forall>i<length ?data. decoded_from (objs v ! (length ?k2 + i)) (?data ! i) ''infraAttEntityP''
         \<and> u_parent (objs v ! (length ?k2 + i)) = PObj 1"
    by blast
  have res: "u_children (?k2 ! 1) @ [length ?k2..<length ?k2 + length ?data] = [2, 3, 4, 5]"
    by (simp add: upt_rec)
  from v(1) res have run:
    "LogicalModel_populate_children ?E 1 False False ?w = Inr ([2, 3, 4, 5], v)"
    by simp
  from populate_children_once_per_class[THEN conjunct2, THEN conjunct1, rule_format, OF run]
  obtain h1 h2 where c:
    "class_get ?E Tenant (u_session (objs ?w ! 1)) (PObj 1) (objs ?w) = Inr h1"
    "class_get ?E PhysDomain (u_session (h1 ! 1)) (PObj 1) h1 = Inr h2"
    "calls v = calls ?w @
       [Call Tenant Get (u_session (objs ?w ! 1)) (PObj 1),
        Call PhysDomain Get (u_session (h1 ! 1)) (PObj 1),
        Call AAEP Get (u_session (h2 ! 1)) (PObj 1)]"
    "[2, 3, 4, 5] = u_children (objs v ! 1)"
    by blast
  from c(1) t have h1: "h1 = ?k1" by simp
  from c(2) p h1 have h2: "h2 = ?k2" by simp
  from c(3) have calls: "calls v = [Call Tenant Get (PObj 0) (PObj 1),
      Call PhysDomain Get (PObj 0) (PObj 1), Call AAEP Get (PObj 0) (PObj 1)]"
    unfolding h1 h2 by (simp add: example_heap_def new_object_def)
  have len: "length ?k2 = 4" by simp
  from v(2)[rule_format, of 0] v(2)[rule_format, of 1]
  have par: "u_parent (objs v ! 4) = PObj 1" "u_parent (objs v ! 5) = PObj 1"
    unfolding len by simp_all
  have d1: "class_get_deep ?E Tenant (u_session (objs ?w ! 1)) (PObj 1) (objs ?w) = Inr ?g1"
    by (simp add: example_env_def example_attach_def BaseACIObject_init_def andThen_def Let_def
          example_heap_def new_object_def)
  have d2: "class_get_deep ?E PhysDomain (u_session (?g1 ! 1)) (PObj 1) ?g1 = Inr ?g2"
    by (simp add: example_env_def example_attach_def BaseACIObject_init_def andThen_def Let_def
          new_object_def)
  have d3: "class_get_deep ?E AAEP (u_session (?g2 ! 1)) (PObj 1) ?g2 = Inr ?g3"
    by (simp add: example_env_def example_attach_def BaseACIObject_init_def andThen_def Let_def
          new_object_def)
  from d1 d2 d3 have deep:
    "class_get_deep ?E Tenant (u_session (objs ?w ! 1)) (PObj 1) (objs ?w) = Inr ?g1
      \<and> class_get_deep ?E PhysDomain (u_session (?g1 ! 1)) (PObj 1) ?g1 = Inr ?g2
      \<and> class_get_deep ?E AAEP (u_session (?g2 ! 1)) (PObj 1) ?g2 = Inr ?g3"
    by blast
  from populate_children_once_per_class
         [THEN conjunct2, THEN conjunct2, THEN conjunct1, rule_format, OF deep]
  have d: "LogicalModel_populate_children ?E 1 True False ?w =
      Inr ([2, 3, 4],
           \<lparr>objs = [new_object Session,
                    (new_object LogicalModel)\<lparr>name := PStr [], u_session := PObj 0,
                       dn := PStr ''logical'', u_children := [2, 3, 4]\<rparr>,
                    (new_object Tenant)\<lparr>name := PStr ''get_deep'', u_parent := PObj 1\<rparr>,
                    (new_object PhysDomain)\<lparr>name := PStr ''get_deep'', u_parent := PObj 1\<rparr>,
                    (new_object AAEP)\<lparr>name := PStr ''get_deep'', u_parent := PObj 1\<rparr>],
            calls = [Call Tenant Get_deep (PObj 0) (PObj 1),
                     Call PhysDomain Get_deep (PObj 0) (PObj 1),
                     Call AAEP Get_deep (PObj 0) (PObj 1)]\<rparr>)"
    by (simp add: example_heap_def new_object_def)
  from run calls c(4) par d show ?thesis
    by auto
qed

end
